theory Spec2Isabelle
  imports Complex_Main "HOL-Library.Word" "HOL-Library.AList"
begin

section \<open>The container reader of \<open>model_dissection_engine.py\<close>\<close>

text \<open>
  The GGUF container is read from a binary file object \<open>f\<close>. Python exceptions are
  values of \<open>pyerr\<close>; a function that may raise returns \<open>pyerr + 'a\<close>, \<open>Inl\<close>
  for the exception.
\<close>

type_synonym byte = "8 word"

datatype pyerr =
    StructError          \<comment> \<open>\<open>struct.error\<close>: the buffer has the wrong size\<close>
  | OverflowError        \<comment> \<open>a size that does not fit \<open>Py_ssize_t\<close>\<close>
  | MemoryError          \<comment> \<open>a buffer that cannot be allocated\<close>
  | ValueError           \<comment> \<open>a seek target that does not fit \<open>off_t\<close>; \<open>max\<close> of nothing\<close>
  | OSError              \<comment> \<open>a seek target that the file system refuses\<close>
  | UnicodeDecodeError   \<comment> \<open>bytes that are not UTF-8\<close>
  | IndexError           \<comment> \<open>\<open>xs[0]\<close> on an empty list\<close>
  | OtherError           \<comment> \<open>any exception of an external library\<close>

definition bindE :: "'e + 'a \<Rightarrow> ('a \<Rightarrow> 'e + 'b) \<Rightarrow> 'e + 'b" where
  "bindE m k = (case m of Inl e \<Rightarrow> Inl e | Inr x \<Rightarrow> k x)"

text \<open>
  The file object has the bytes of the file and the position of the cursor. Which
  sizes a read can be given and which targets a seek accepts is a matter of the
  interpreter, the memory and the file system, not of the engine, so the file object
  carries both as it finds them: \<open>read_error f n\<close> is the exception that a read of
  \<open>n\<close> bytes raises whatever the file holds (\<open>OverflowError\<close> for a size that
  does not fit, \<open>MemoryError\<close> for a buffer that cannot be allocated), and
  \<open>seek_error f target\<close> the exception that a seek to \<open>target\<close> raises
  (\<open>ValueError\<close>, \<open>OSError\<close>); \<open>None\<close> when there is none.
\<close>

record fileobj =
  content :: "byte list"
  pos :: nat
  read_error :: "nat \<Rightarrow> pyerr option"
  seek_error :: "nat \<Rightarrow> pyerr option"

text \<open>
  \<open>f.read(n)\<close>: the next \<open>n\<close> bytes, or as many as remain. A short read is not an
  error of \<open>read\<close>. A read of no bytes allocates nothing and returns \<open>b''\<close>.
\<close>

definition read :: "fileobj \<Rightarrow> nat \<Rightarrow> pyerr + (byte list \<times> fileobj)" where
  "read f n =
     (if n = 0 then Inr ([], f)
      else case read_error f n of
             Some e \<Rightarrow> Inl e
           | None \<Rightarrow>
               (let bs = take n (drop (pos f) (content f))
                in Inr (bs, f\<lparr>pos := pos f + length bs\<rparr>)))"

text \<open>
  \<open>f.seek(target)\<close> from the start of the file; a target past the end of the file
  is no error.
\<close>

definition seek :: "fileobj \<Rightarrow> nat \<Rightarrow> pyerr + fileobj" where
  "seek f target =
     (case seek_error f target of Some e \<Rightarrow> Inl e | None \<Rightarrow> Inr (f\<lparr>pos := target\<rparr>))"

text \<open>Two file objects on the same file of the same machine, whatever their cursors.\<close>

definition same_file :: "fileobj \<Rightarrow> fileobj \<Rightarrow> bool" where
  "same_file f g =
     (content f = content g \<and> read_error f = read_error g \<and> seek_error f = seek_error g)"

fun le_nat :: "byte list \<Rightarrow> nat" where
  "le_nat [] = 0"
| "le_nat (b # bs) = unat b + 256 * le_nat bs"

text \<open>
  \<open>struct.unpack('<B' | '<H' | '<I' | '<Q', bs)[0]\<close>, with \<open>w\<close> the width in bytes:
  \<open>struct.error\<close> unless the buffer has exactly \<open>w\<close> bytes.
\<close>

definition unpack_uint :: "nat \<Rightarrow> byte list \<Rightarrow> pyerr + nat" where
  "unpack_uint w bs = (if length bs = w then Inr (le_nat bs) else Inl StructError)"

text \<open>\<open>struct.unpack('<b' | '<h' | '<i', bs)[0]\<close>: two's complement.\<close>

definition unpack_sint :: "nat \<Rightarrow> byte list \<Rightarrow> pyerr + int" where
  "unpack_sint w bs =
     (if length bs = w
      then Inr (if 2 ^ (8 * w - 1) \<le> le_nat bs then int (le_nat bs) - 2 ^ (8 * w)
                else int (le_nat bs))
      else Inl StructError)"

text \<open>
  \<open>struct.unpack('<f', bs)[0]\<close>: every four bytes are a float; the model keeps the
  bit pattern and gives it no arithmetic.
\<close>

definition unpack_f32 :: "byte list \<Rightarrow> pyerr + 32 word" where
  "unpack_f32 bs = (if length bs = 4 then Inr (word_of_nat (le_nat bs)) else Inl StructError)"

text \<open>\<open>struct.unpack(fmt, f.read(w))[0]\<close> for the unsigned and the signed formats.\<close>

definition read_uint :: "fileobj \<Rightarrow> nat \<Rightarrow> pyerr + (nat \<times> fileobj)" where
  "read_uint f w =
     bindE (read f w) (\<lambda>(bs, f'). bindE (unpack_uint w bs) (\<lambda>v. Inr (v, f')))"

definition read_sint :: "fileobj \<Rightarrow> nat \<Rightarrow> pyerr + (int \<times> fileobj)" where
  "read_sint f w =
     bindE (read f w) (\<lambda>(bs, f'). bindE (unpack_sint w bs) (\<lambda>v. Inr (v, f')))"

subsection \<open>Text\<close>

text \<open>
  \<open>bytes.decode('utf-8')\<close> gives a Python \<open>str\<close>, a sequence of code points; the
  decoder is strict: overlong forms, surrogates and code points above \<open>0x10FFFF\<close> raise
  \<open>UnicodeDecodeError\<close>.
\<close>

type_synonym ustr = "nat list"

definition cont :: "nat \<Rightarrow> bool" where
  "cont b = (128 \<le> b \<and> b \<le> 191)"

fun utf8 :: "nat list \<Rightarrow> ustr option" where
  "utf8 [] = Some []"
| "utf8 (b0 # bs) =
     (if b0 < 128 then map_option ((#) b0) (utf8 bs)
      else if 194 \<le> b0 \<and> b0 \<le> 223 then
        (case bs of
           b1 # r \<Rightarrow>
             if cont b1 then map_option ((#) ((b0 - 192) * 64 + (b1 - 128))) (utf8 r)
             else None
         | _ \<Rightarrow> None)
      else if 224 \<le> b0 \<and> b0 \<le> 239 then
        (case bs of
           b1 # b2 # r \<Rightarrow>
             if (if b0 = 224 then 160 else 128) \<le> b1
                \<and> b1 \<le> (if b0 = 237 then 159 else 191) \<and> cont b2
             then map_option ((#) ((b0 - 224) * 4096 + (b1 - 128) * 64 + (b2 - 128))) (utf8 r)
             else None
         | _ \<Rightarrow> None)
      else if 240 \<le> b0 \<and> b0 \<le> 244 then
        (case bs of
           b1 # b2 # b3 # r \<Rightarrow>
             if (if b0 = 240 then 144 else 128) \<le> b1
                \<and> b1 \<le> (if b0 = 244 then 143 else 191) \<and> cont b2 \<and> cont b3
             then map_option
                    ((#) ((b0 - 240) * 262144 + (b1 - 128) * 4096 + (b2 - 128) * 64 + (b3 - 128)))
                    (utf8 r)
             else None
         | _ \<Rightarrow> None)
      else None)"

definition decode :: "byte list \<Rightarrow> pyerr + ustr" where
  "decode bs = (case utf8 (map unat bs) of None \<Rightarrow> Inl UnicodeDecodeError | Some s \<Rightarrow> Inr s)"

subsection \<open>Metadata\<close>

text \<open>
  A metadata value as \<open>_read_metadata_value\<close> returns it: a Python int, a float, a
  bool, a str, or \<open>None\<close>.
\<close>

datatype mvalue = MInt int | MFloat "32 word" | MBool bool | MStr ustr | MNone

definition read_metadata_value :: "fileobj \<Rightarrow> nat \<Rightarrow> pyerr + (mvalue \<times> fileobj)" where
  "read_metadata_value f value_type =
     (if value_type = 0 then bindE (read_uint f 1) (\<lambda>(v, f'). Inr (MInt (int v), f'))
      else if value_type = 1 then bindE (read_sint f 1) (\<lambda>(v, f'). Inr (MInt v, f'))
      else if value_type = 2 then bindE (read_uint f 2) (\<lambda>(v, f'). Inr (MInt (int v), f'))
      else if value_type = 3 then bindE (read_sint f 2) (\<lambda>(v, f'). Inr (MInt v, f'))
      else if value_type = 4 then bindE (read_uint f 4) (\<lambda>(v, f'). Inr (MInt (int v), f'))
      else if value_type = 5 then bindE (read_sint f 4) (\<lambda>(v, f'). Inr (MInt v, f'))
      else if value_type = 6 then
        bindE (read f 4) (\<lambda>(bs, f'). bindE (unpack_f32 bs) (\<lambda>v. Inr (MFloat v, f')))
      else if value_type = 7 then bindE (read_uint f 1) (\<lambda>(v, f'). Inr (MBool (v \<noteq> 0), f'))
      else if value_type = 8 then
        bindE (read_uint f 8) (\<lambda>(str_len, f').
          bindE (read f' str_len) (\<lambda>(bs, f'').
            bindE (decode bs) (\<lambda>s. Inr (MStr s, f''))))
      else Inr (MNone, f))"

text \<open>
  \<open>_extract_metadata\<close>: \<open>kv_count\<close> entries, each a length-prefixed key, a 32-bit
  type tag and a value; the dict \<open>metadata\<close> is the accumulator of the loop.
\<close>

fun extract_metadata_loop ::
  "fileobj \<Rightarrow> nat \<Rightarrow> (ustr \<rightharpoonup> mvalue) \<Rightarrow> pyerr + ((ustr \<rightharpoonup> mvalue) \<times> fileobj)" where
  "extract_metadata_loop f 0 metadata = Inr (metadata, f)"
| "extract_metadata_loop f (Suc n) metadata =
     bindE (read_uint f 8) (\<lambda>(key_len, f1).
       bindE (read f1 key_len) (\<lambda>(kb, f2).
         bindE (decode kb) (\<lambda>key.
           bindE (read_uint f2 4) (\<lambda>(value_type, f3).
             bindE (read_metadata_value f3 value_type) (\<lambda>(v, f4).
               extract_metadata_loop f4 n (metadata(key \<mapsto> v)))))))"

definition extract_metadata :: "fileobj \<Rightarrow> nat \<Rightarrow> pyerr + ((ustr \<rightharpoonup> mvalue) \<times> fileobj)" where
  "extract_metadata f kv_count = extract_metadata_loop f kv_count Map.empty"

subsection \<open>The tensor table\<close>

text \<open>An entry of the list \<open>tensor_info\<close>: the dict with the keys name, dims, type, offset.\<close>

record tensor =
  name :: ustr
  dims :: "nat list"
  type :: nat
  offset :: nat




subsection \<open>Tensor payloads\<close>

text \<open>
  The decoded numbers keep their bit patterns: \<open>F32\<close> for a value of format \<open>f\<close>,
  \<open>F16\<close> for one of format \<open>e\<close>. Every bit pattern is a float, so unpacking fails
  on the size of the buffer only.
\<close>

datatype fnum = F32 "32 word" | F16 "16 word"

fun chunks4 :: "byte list \<Rightarrow> byte list list" where
  "chunks4 (a # b # c # d # r) = [a, b, c, d] # chunks4 r"
| "chunks4 _ = []"

text \<open>\<open>struct.unpack(f'<{size}f', bs)\<close>\<close>

definition unpack_f32s :: "nat \<Rightarrow> byte list \<Rightarrow> pyerr + fnum list" where
  "unpack_f32s sz bs =
     (if length bs = sz * 4 then Inr (map (\<lambda>c. F32 (word_of_nat (le_nat c))) (chunks4 bs))
      else Inl StructError)"

text \<open>
  The loop \<open>for i in range(0, len(raw_data), 2)\<close> with
  \<open>struct.unpack('<e', raw_data[i:i+2])\<close>: a last slice of one byte raises.
\<close>

fun unpack_f16s :: "byte list \<Rightarrow> pyerr + fnum list" where
  "unpack_f16s [] = Inr []"
| "unpack_f16s [a] = Inl StructError"
| "unpack_f16s (a # b # r) =
     bindE (unpack_f16s r) (\<lambda>vs. Inr (F16 (word_of_nat (le_nat [a, b])) # vs))"

record layer =
  data :: "fnum list"
  shape :: "nat list"
  ltype :: nat

text \<open>
  The body of the \<open>try\<close> of \<open>_extract_tensor_data\<close> for one tensor. The cursor is
  returned in every case, as an exception leaves it where it was. \<open>Inr None\<close> is the
  \<open>continue\<close> of an unsupported type.
\<close>

definition tensor_step :: "fileobj \<Rightarrow> tensor \<Rightarrow> fileobj \<times> (pyerr + fnum list option)" where
  "tensor_step f t =
     (case seek f (offset t) of
        Inl e \<Rightarrow> (f, Inl e)
      | Inr f1 \<Rightarrow>
          (let sz = prod_list (dims t) in
           if type t = 0 then
             (case read f1 (sz * 4) of
                Inl e \<Rightarrow> (f1, Inl e)
              | Inr (bs, f2) \<Rightarrow>
                  (case unpack_f32s sz bs of
                     Inl e \<Rightarrow> (f2, Inl e)
                   | Inr d \<Rightarrow> (f2, Inr (Some d))))
           else if type t = 1 then
             (case read f1 (sz * 2) of
                Inl e \<Rightarrow> (f1, Inl e)
              | Inr (raw_data, f2) \<Rightarrow>
                  (case unpack_f16s raw_data of
                     Inl e \<Rightarrow> (f2, Inl e)
                   | Inr d \<Rightarrow> (f2, Inr (Some d))))
           else (f1, Inr None)))"

text \<open>
  What the logger receives: the error of an invalid magic, the error of a failed
  extraction, and the warning of a tensor that failed.
\<close>

datatype logmsg =
    InvalidGGUF
  | FailedWeights pyerr
  | FailedTensor ustr pyerr

text \<open>
  \<open>_extract_tensor_data\<close>: the dict \<open>layers\<close> and the warnings logged, with the
  file object as the loop leaves it.
\<close>

fun extract_tensor_data_loop ::
  "fileobj \<Rightarrow> tensor list \<Rightarrow> (ustr \<rightharpoonup> layer) \<Rightarrow> logmsg list
     \<Rightarrow> (ustr \<rightharpoonup> layer) \<times> logmsg list \<times> fileobj" where
  "extract_tensor_data_loop f [] layers lg = (layers, lg, f)"
| "extract_tensor_data_loop f (t # ts) layers lg =
     (case tensor_step f t of
        (f', Inl e) \<Rightarrow> extract_tensor_data_loop f' ts layers (lg @ [FailedTensor (name t) e])
      | (f', Inr None) \<Rightarrow> extract_tensor_data_loop f' ts layers lg
      | (f', Inr (Some d)) \<Rightarrow>
          extract_tensor_data_loop f' ts
            (layers(name t \<mapsto> \<lparr>data = d, shape = dims t, ltype = type t\<rparr>)) lg)"

definition extract_tensor_data ::
  "fileobj \<Rightarrow> tensor list \<Rightarrow> (ustr \<rightharpoonup> layer) \<times> logmsg list \<times> fileobj" where
  "extract_tensor_data f tensor_info = extract_tensor_data_loop f tensor_info Map.empty []"

subsection \<open>A whole container\<close>

text \<open>
  \<open>extract_gguf_weights\<close> on the result of \<open>open(model_path, 'rb')\<close>: an
  exception, or the file object with its cursor at the start. Of the dict
  \<open>weights_data\<close> only the two entries the function writes are kept; the others stay
  empty. An exception leaves \<open>weights_data\<close> as it is at that moment and is logged.
\<close>

record weights_data =
  architecture_metadata :: "ustr \<rightharpoonup> mvalue"
  layers :: "ustr \<rightharpoonup> layer"



section \<open>Text handled by the prober, the merger and the discovery\<close>

text \<open>
  Responses, layer names and file names are Python \<open>str\<close> values; they are modelled
  as \<open>string\<close>, one character for one code point, which covers the code points
  below 256. On these, \<open>str.lower\<close> maps A to Z and the capital letters of Latin-1
  to their small letters, and \<open>str.strip\<close> removes the white space listed below.
\<close>

definition lower_char :: "char \<Rightarrow> char" where
  "lower_char c =
     (let n = (of_char c :: nat)
      in if (65 \<le> n \<and> n \<le> 90) \<or> (192 \<le> n \<and> n \<le> 222 \<and> n \<noteq> 215)
         then char_of (n + 32) else c)"

definition lower :: "string \<Rightarrow> string" where
  "lower s = map lower_char s"

definition is_space :: "char \<Rightarrow> bool" where
  "is_space c = ((of_char c :: nat) \<in> {9, 10, 11, 12, 13, 28, 29, 30, 31, 32, 133, 160})"

definition strip :: "string \<Rightarrow> string" where
  "strip s = rev (dropWhile is_space (rev (dropWhile is_space s)))"

text \<open>\<open>t in s\<close> on strings: \<open>t\<close> occurs in \<open>s\<close> as a contiguous block.\<close>

fun isin :: "string \<Rightarrow> string \<Rightarrow> bool" where
  "isin t [] = (t = [])"
| "isin t (c # cs) = (take (length t) (c # cs) = t \<or> isin t cs)"

definition endswith :: "string \<Rightarrow> string \<Rightarrow> bool" where
  "endswith s suf = (length suf \<le> length s \<and> drop (length s - length suf) s = suf)"

text \<open>\<open>str(n)\<close> for a natural number.\<close>

definition digit :: "nat \<Rightarrow> char" where
  "digit d = char_of (d + 48)"

fun str_of_nat :: "nat \<Rightarrow> string" where
  "str_of_nat n = (if 10 \<le> n then str_of_nat (n div 10) @ [digit (n mod 10)] else [digit n])"

section \<open>The capability prober\<close>

definition math_indicators :: "string list" where
  "math_indicators = [''='', ''+'', ''-'', ''*'', ''/'', ''x'', ''y'',
     [CHR ''0''], [CHR ''1''], [CHR ''2''], [CHR ''3''], [CHR ''4''],
     [CHR ''5''], [CHR ''6''], [CHR ''7''], [CHR ''8''], [CHR ''9'']]"

definition code_indicators :: "string list" where
  "code_indicators = [''def'', ''function'', ''print'', ''return'', ''()'', ''{}'', ''[]'',
     ''import'', ''for'', ''if'']"

definition logic_indicators :: "string list" where
  "logic_indicators = [''because'', ''therefore'', ''if'', ''then'', ''since'', ''however'',
     ''thus'', ''conclusion'']"

definition lang_indicators :: "string list" where
  "lang_indicators = [''is'', ''are'', ''the'', ''a'', ''an'', ''of'', ''to'', ''in'', ''for'',
     ''with'']"

definition creative_indicators :: "string list" where
  "creative_indicators = [''imagine'', ''create'', ''new'', ''unique'', ''story'', ''poem'',
     ''beautiful'', ''wonderful'']"

definition fact_indicators :: "string list" where
  "fact_indicators = [''is'', ''was'', ''were'', ''are'', ''the'', ''first'', ''process'',
     ''capital'', ''located'']"

text \<open>
  \<open>sum(1 for indicator in indicators if indicator in response) / len(indicators)\<close>
  and the same with both sides in lower case. Floats are modelled as real numbers.
\<close>

definition hits_exact :: "string list \<Rightarrow> string \<Rightarrow> real" where
  "hits_exact indicators response =
     real (length (filter (\<lambda>indicator. isin indicator response) indicators))
       / real (length indicators)"

definition hits_lower :: "string list \<Rightarrow> string \<Rightarrow> real" where
  "hits_lower indicators response =
     real (length (filter (\<lambda>indicator. isin (lower indicator) (lower response)) indicators))
       / real (length indicators)"

definition score_response :: "string \<Rightarrow> string \<Rightarrow> string \<Rightarrow> real" where
  "score_response prompt response domain =
     (if strip response = [] then 0
      else
        let score =
              (if domain = ''mathematics'' then hits_exact math_indicators response
               else if domain = ''coding'' then hits_lower code_indicators response
               else if domain = ''reasoning'' then hits_lower logic_indicators response
               else if domain = ''language'' then hits_lower lang_indicators response
               else if domain = ''creativity'' then hits_lower creative_indicators response
               else if domain = ''knowledge'' then hits_lower fact_indicators response
               else 5 / 10);
            length_bonus = min (3 / 10) (real (length response) / 100)
        in min 1 (score + length_bonus))"

section \<open>The weight merger\<close>

text \<open>
  A Python dict keeps its keys in the order of their first insertion, and a later
  assignment to a key replaces the value in place: \<open>AList.update\<close> on an association
  list. Of \<open>unified_model\<close> the four dicts that \<open>merge_extracted_weights\<close> writes are
  kept; the type \<open>'d\<close> is that of a layer's data.
\<close>

record 'd unified_model =
  embedding_layers :: "(string \<times> 'd) list"
  transformer_blocks :: "(string \<times> 'd) list"
  attention_layers :: "(string \<times> 'd) list"
  feed_forward_layers :: "(string \<times> 'd) list"

text \<open>The body of the inner loop: one layer of the model with index \<open>model_idx\<close>.\<close>

definition merge_layer ::
  "nat \<Rightarrow> string \<times> 'd \<Rightarrow> 'd unified_model \<times> nat \<Rightarrow> 'd unified_model \<times> nat" where
  "merge_layer model_idx layer st =
     (case (layer, st) of
        ((layer_name, layer_data), (um, layer_counter)) \<Rightarrow>
          if isin ''embed'' (lower layer_name) then
            (um\<lparr>embedding_layers :=
                  AList.update (''model_'' @ str_of_nat model_idx @ ''_'' @ layer_name)
                    layer_data (embedding_layers um)\<rparr>,
             layer_counter)
          else if isin ''attn'' (lower layer_name) \<or> isin ''attention'' (lower layer_name) then
            (um\<lparr>attention_layers :=
                  AList.update (''unified_attn_'' @ str_of_nat layer_counter)
                    layer_data (attention_layers um)\<rparr>,
             layer_counter + 1)
          else if isin ''mlp'' (lower layer_name) \<or> isin ''ffn'' (lower layer_name) then
            (um\<lparr>feed_forward_layers :=
                  AList.update (''unified_ffn_'' @ str_of_nat layer_counter)
                    layer_data (feed_forward_layers um)\<rparr>,
             layer_counter)
          else if isin ''norm'' (lower layer_name) then
            (um\<lparr>transformer_blocks :=
                  AList.update (''norm_'' @ str_of_nat model_idx @ ''_'' @ layer_name)
                    layer_data (transformer_blocks um)\<rparr>,
             layer_counter)
          else
            (um\<lparr>transformer_blocks :=
                  AList.update (''block_'' @ str_of_nat layer_counter @ ''_'' @ layer_name)
                    layer_data (transformer_blocks um)\<rparr>,
             layer_counter + 1))"

text \<open>
  The outer loop over \<open>enumerate(all_weights)\<close>. An element is \<open>None\<close> when the
  source skips it (\<open>not weights or 'layers' not in weights\<close>), and otherwise the
  items of its dict \<open>weights['layers']\<close> in their order.
\<close>

fun merge_models ::
  "nat \<Rightarrow> (string \<times> 'd) list option list \<Rightarrow> 'd unified_model \<times> nat \<Rightarrow> 'd unified_model \<times> nat"
  where
  "merge_models model_idx [] st = st"
| "merge_models model_idx (None # rest) st = merge_models (model_idx + 1) rest st"
| "merge_models model_idx (Some ls # rest) st =
     merge_models (model_idx + 1) rest (fold (merge_layer model_idx) ls st)"

definition merge_extracted_weights :: "(string \<times> 'd) list option list \<Rightarrow> 'd unified_model" where
  "merge_extracted_weights all_weights =
     fst (merge_models 0 all_weights
            (\<lparr>embedding_layers = [], transformer_blocks = [], attention_layers = [],
              feed_forward_layers = []\<rparr>, 0))"

section \<open>Signatures and the supermodel architect\<close>

text \<open>
  The strengths of a signature and the fusion weights are Python floats. A float is a
  finite number, an infinity or a NaN. What an operation on floats returns is a matter
  of the arithmetic of the machine and of the interpreter (\<open>sum\<close> adds from left to
  right in some versions of Python and with compensation in others), so the arithmetic
  is a parameter: \<open>fsum\<close> for \<open>sum\<close> of a list, \<open>fadd\<close>, \<open>fmul\<close> and
  \<open>fdiv\<close> for \<open>+\<close>, \<open>*\<close> and \<open>/\<close> with a divisor that is not zero. An
  \<open>int\<close> that meets a float is converted first, exactly for the lengths of lists.
  A comparison of floats is exact.
\<close>

datatype pyfloat = Fin real | PInf | NInf | NaN

record farith =
  fsum :: "pyfloat list \<Rightarrow> pyfloat"
  fadd :: "pyfloat \<Rightarrow> pyfloat \<Rightarrow> pyfloat"
  fmul :: "pyfloat \<Rightarrow> pyfloat \<Rightarrow> pyfloat"
  fdiv :: "pyfloat \<Rightarrow> pyfloat \<Rightarrow> pyfloat"

text \<open>\<open>x > 0\<close> for a float \<open>x\<close>.\<close>

definition fpos :: "pyfloat \<Rightarrow> bool" where
  "fpos x = (case x of Fin r \<Rightarrow> 0 < r | PInf \<Rightarrow> True | NInf \<Rightarrow> False | NaN \<Rightarrow> False)"

text \<open>The literals \<open>0.7\<close> and \<open>0.3\<close>: the doubles nearest to them.\<close>

definition float_07 :: pyfloat where
  "float_07 = Fin (3152519739159347 / 4503599627370496)"

definition float_03 :: pyfloat where
  "float_03 = Fin (5404319552844595 / 18014398509481984)"

text \<open>
  The dataclasses \<open>ModelCapability\<close> and \<open>ModelSignature\<close>, with the fields that
  the architect reads; the dict \<open>strengths\<close> is the list of its items.
\<close>

record ModelCapability =
  cap_name :: string
  domain :: string
  strength :: real

record ModelSignature =
  model_name :: string
  total_parameters :: int
  capabilities :: "ModelCapability list"
  strengths :: "(string \<times> pyfloat) list"

text \<open>
  The loop of \<open>analyze_dissection_results\<close> on the empty dict of a new architect:
  \<open>self.model_signatures[signature.model_name] = signature\<close>.
\<close>

definition model_signatures_of :: "ModelSignature list \<Rightarrow> (string \<times> ModelSignature) list" where
  "model_signatures_of signatures = fold (\<lambda>sg ms. AList.update (model_name sg) sg ms) signatures []"

text \<open>The members of the set \<open>all_domains\<close> of \<open>build_capability_matrix\<close>.\<close>

definition all_domains :: "(string \<times> ModelSignature) list \<Rightarrow> string list" where
  "all_domains model_signatures =
     concat (map (\<lambda>(nm, sg). map domain (capabilities sg)) model_signatures)"

definition domain_strength :: "ModelSignature \<Rightarrow> string \<Rightarrow> real" where
  "domain_strength sg d =
     (let domain_capabilities = filter (\<lambda>cap. domain cap = d) (capabilities sg)
      in if domain_capabilities \<noteq> []
         then sum_list (map strength domain_capabilities) / real (length domain_capabilities)
         else 0)"

text \<open>The inner loop: the dict \<open>self.capability_matrix[domain]\<close>.\<close>

definition matrix_row :: "(string \<times> ModelSignature) list \<Rightarrow> string \<Rightarrow> (string \<times> real) list" where
  "matrix_row model_signatures d =
     fold (\<lambda>(nm, sg) row. AList.update nm (domain_strength sg d) row) model_signatures []"

text \<open>
  \<open>build_capability_matrix\<close> on the empty matrix of a new architect. The set
  \<open>all_domains\<close> is iterated in no fixed order; each domain gets its own key, so the
  matrix is the same map in any order.
\<close>

definition build_capability_matrix ::
  "(string \<times> ModelSignature) list \<Rightarrow> (string \<rightharpoonup> (string \<times> real) list)" where
  "build_capability_matrix model_signatures =
     (\<lambda>d. if d \<in> set (all_domains model_signatures)
          then Some (matrix_row model_signatures d) else None)"

text \<open>
  \<open>max(models.items(), key=lambda x: x[1])\<close>: the first item whose value no other
  item exceeds; \<open>ValueError\<close> on an empty dict.
\<close>

definition py_max_item :: "(string \<times> real) list \<Rightarrow> pyerr + (string \<times> real)" where
  "py_max_item items =
     (case items of
        [] \<Rightarrow> Inl ValueError
      | x # xs \<Rightarrow> Inr (fold (\<lambda>y best. if snd best < snd y then y else best) xs x))"

definition get_best_model_for_domain ::
  "(string \<times> ModelSignature) list \<Rightarrow> (string \<rightharpoonup> (string \<times> real) list) \<Rightarrow> string
     \<Rightarrow> pyerr + string" where
  "get_best_model_for_domain model_signatures capability_matrix d =
     (case capability_matrix d of
        Some models \<Rightarrow> bindE (py_max_item models) (\<lambda>best. Inr (fst best))
      | None \<Rightarrow>
          (case model_signatures of
             [] \<Rightarrow> Inl IndexError
           | (nm, sg) # rest \<Rightarrow> Inr nm))"

text \<open>
  The body of the loop of \<open>calculate_fusion_weights\<close>: the value of
  \<open>overall_weight\<close> for one signature. The list of strengths is not empty where it
  is divided by its length.
\<close>

definition overall_weight :: "farith \<Rightarrow> ModelSignature \<Rightarrow> pyfloat" where
  "overall_weight ar sg =
     (let strength_scores = map snd (strengths sg);
          avg_strength =
            (if strength_scores \<noteq> []
             then fdiv ar (fsum ar strength_scores) (Fin (real (length strength_scores)))
             else Fin (1 / 2));
          capability_count = length (capabilities sg);
          diversity_score = fdiv ar (Fin (real capability_count)) (Fin 10)
      in fadd ar (fmul ar avg_strength float_07) (fmul ar diversity_score float_03))"


text \<open>
  The dict \<open>weights\<close> has one key for each key of \<open>model_signatures\<close>; the dict
  comprehension that normalises it keeps the keys and their order. The weights are
  divided by their total only where the total is above 0, so the divisor is not zero.
\<close>

definition calculate_fusion_weights ::
  "farith \<Rightarrow> (string \<times> ModelSignature) list \<Rightarrow> (string \<times> pyfloat) list" where
  "calculate_fusion_weights ar model_signatures =
     (let weights =
            fold (\<lambda>(nm, sg) ws. AList.update nm (overall_weight ar sg) ws) model_signatures [];
          total_weight = fsum ar (map snd weights)
      in if fpos total_weight then map (\<lambda>(k, v). (k, fdiv ar v total_weight)) weights
         else weights)"

text \<open>
  The entries of \<open>architecture_blueprint\<close> that depend on the signatures. The dict
  \<open>domain_experts\<close> has the six fixed keys, evaluated in this order; an exception in
  one of them leaves no blueprint.
\<close>

definition expert_domains :: "string list" where
  "expert_domains =
     [''mathematics'', ''coding'', ''reasoning'', ''language'', ''creativity'', ''knowledge'']"

fun experts_for ::
  "(string \<times> ModelSignature) list \<Rightarrow> (string \<rightharpoonup> (string \<times> real) list) \<Rightarrow> string list
     \<Rightarrow> pyerr + (string \<times> string) list" where
  "experts_for model_signatures capability_matrix [] = Inr []"
| "experts_for model_signatures capability_matrix (d # ds) =
     bindE (get_best_model_for_domain model_signatures capability_matrix d) (\<lambda>m.
       bindE (experts_for model_signatures capability_matrix ds) (\<lambda>rest. Inr ((d, m) # rest)))"

record blueprint =
  bp_total_parameters :: int
  component_models :: nat
  domain_experts :: "(string \<times> string) list"
  fusion_weights :: "(string \<times> pyfloat) list"

definition design_supermodel_architecture ::
  "farith \<Rightarrow> (string \<times> ModelSignature) list \<Rightarrow> (string \<rightharpoonup> (string \<times> real) list)
     \<Rightarrow> pyerr + blueprint"
  where
  "design_supermodel_architecture ar model_signatures capability_matrix =
     bindE (experts_for model_signatures capability_matrix expert_domains) (\<lambda>experts.
       Inr \<lparr>bp_total_parameters = sum_list (map (\<lambda>(nm, sg). total_parameters sg) model_signatures),
            component_models = length model_signatures,
            domain_experts = experts,
            fusion_weights = calculate_fusion_weights ar model_signatures\<rparr>)"

text \<open>
  \<open>analyze_dissection_results\<close> on a new architect: the blueprint designed from the
  signatures, whose \<open>domain_experts\<close> is the routing table.
\<close>

definition analyze_dissection_results ::
  "farith \<Rightarrow> ModelSignature list \<Rightarrow> pyerr + blueprint" where
  "analyze_dissection_results ar signatures =
     (let model_signatures = model_signatures_of signatures
      in design_supermodel_architecture ar model_signatures
           (build_capability_matrix model_signatures))"

section \<open>Dissection of the discovered artifacts\<close>

text \<open>
  A path is its directory and its last component. \<open>Path.suffix\<close> is the part of the
  last component from its last dot on, empty when that dot is the first or the last
  character.
\<close>

record Path =
  parent :: string
  pname :: string

definition path_suffix :: "Path \<Rightarrow> string" where
  "path_suffix p =
     (let nm = pname p; ext = rev (takeWhile (\<lambda>c. c \<noteq> CHR ''.'') (rev nm))
      in if CHR ''.'' \<in> set nm \<and> Suc (length ext) < length nm \<and> ext \<noteq> []
         then CHR ''.'' # ext else [])"

text \<open>
  The loop over \<open>extracted_models\<close>: the first signature that is not \<open>None\<close>; an
  exception of \<open>_dissect_gguf_model\<close> leaves the loop.
\<close>

fun first_successful ::
  "(Path \<Rightarrow> pyerr + ModelSignature option) \<Rightarrow> Path list \<Rightarrow> pyerr + ModelSignature option" where
  "first_successful dissect_gguf_model [] = Inr None"
| "first_successful dissect_gguf_model (extracted_model # rest) =
     bindE (dissect_gguf_model extracted_model) (\<lambda>signature.
       case signature of
         Some sg \<Rightarrow> Inr (Some sg)
       | None \<Rightarrow> first_successful dissect_gguf_model rest)"

text \<open>
  \<open>dissect_model_structure\<close>. Two things come from outside the engine and are
  parameters: \<open>untar\<close>, the files that \<open>os.walk\<close> finds after the archive is
  extracted (or the exception of \<open>tarfile\<close>), and \<open>dissect_gguf_model\<close>, the
  result of \<open>_dissect_gguf_model\<close>, which loads the file with \<open>llama_cpp\<close> and
  returns a signature or raises. The \<open>except\<close> turns every exception into \<open>None\<close>.
\<close>

definition dissect_model_structure ::
  "(Path \<Rightarrow> pyerr + Path list) \<Rightarrow> (Path \<Rightarrow> pyerr + ModelSignature option) \<Rightarrow> Path
     \<Rightarrow> ModelSignature option" where
  "dissect_model_structure untar dissect_gguf_model model_path =
     (case (if path_suffix model_path = ''.tar'' then
              bindE (untar model_path) (\<lambda>files.
                let extracted_models = filter (\<lambda>q. endswith (lower (pname q)) ''.gguf'') files
                in if extracted_models = [] then Inr None
                   else first_successful dissect_gguf_model extracted_models)
            else dissect_gguf_model model_path) of
        Inl e \<Rightarrow> None
      | Inr signature \<Rightarrow> signature)"

text \<open>The loop of \<open>main\<close>: the signatures of the paths whose dissection returns one.\<close>

fun dissect_all ::
  "(Path \<Rightarrow> pyerr + Path list) \<Rightarrow> (Path \<Rightarrow> pyerr + ModelSignature option) \<Rightarrow> Path list
     \<Rightarrow> ModelSignature list" where
  "dissect_all untar dissect_gguf_model [] = []"
| "dissect_all untar dissect_gguf_model (model_path # rest) =
     (case dissect_model_structure untar dissect_gguf_model model_path of
        Some sg \<Rightarrow> sg # dissect_all untar dissect_gguf_model rest
      | None \<Rightarrow> dissect_all untar dissect_gguf_model rest)"

section \<open>The probe score in the words of the specification\<close>

text \<open>
  The specification's score of a response for a domain: the number of the domain's
  indicator terms that appear in the response as substrings, case ignored, over the
  size of the vocabulary, plus a length bonus of at most 0.3, clamped to the interval
  from 0 to 1. A term appears in the response, case ignored, when at some position
  the response continues with the characters of the term up to their case.
\<close>

definition ci_isin :: "string \<Rightarrow> string \<Rightarrow> bool" where
  "ci_isin t r = (\<exists>i \<in> {0..length r}. lower (take (length t) (drop i r)) = lower t)"

definition indicators_of :: "string \<Rightarrow> string list" where
  "indicators_of d =
     (if d = ''mathematics'' then math_indicators
      else if d = ''coding'' then code_indicators
      else if d = ''reasoning'' then logic_indicators
      else if d = ''language'' then lang_indicators
      else if d = ''creativity'' then creative_indicators
      else if d = ''knowledge'' then fact_indicators
      else [])"

definition spec_probe_score :: "string \<Rightarrow> string \<Rightarrow> real" where
  "spec_probe_score d r =
     (let count = length (filter (\<lambda>t. ci_isin t r) (indicators_of d));
          bonus = min (3 / 10) (real (length r) / 100)
      in max 0 (min 1 (real count / real (length (indicators_of d)) + bonus)))"

section \<open>The architect in the words of the specification\<close>

text \<open>The order in which the names of a sequence are first seen.\<close>

fun first_seen :: "'a list \<Rightarrow> 'a list" where
  "first_seen [] = []"
| "first_seen (x # xs) = x # filter (\<lambda>y. y \<noteq> x) (first_seen xs)"

section \<open>Example inputs\<close>

text \<open>
  A machine for the examples: a read of more than 4 GiB cannot be allocated, a size
  from \<open>2^63 - 33\<close> on is too large for a byte string, and the file system takes no
  offset from \<open>2^63 - 1\<close> on. \<open>opened bs\<close> is a file of the bytes \<open>bs\<close> just
  opened there.
\<close>

definition example_read_error :: "nat \<Rightarrow> pyerr option" where
  "example_read_error n =
     (if 9223372036854775775 \<le> n then Some OverflowError
      else if 4294967296 < n then Some MemoryError else None)"

definition example_seek_error :: "nat \<Rightarrow> pyerr option" where
  "example_seek_error target =
     (if 9223372036854775808 \<le> target then Some ValueError
      else if 9223372036854775807 \<le> target then Some OSError else None)"

definition opened :: "byte list \<Rightarrow> fileobj" where
  "opened bs =
     \<lparr>content = bs, pos = 0, read_error = example_read_error,
      seek_error = example_seek_error\<rparr>"



text \<open>
  A metadata block of one entry with the key \<open>k\<close> and the unknown type tag 9, and a
  container whose only metadata value is a string announced with 2 bytes of which the
  file has 1.
\<close>

definition unknown_tag_entry :: "byte list" where
  "unknown_tag_entry = [1, 0, 0, 0, 0, 0, 0, 0, 107, 9, 0, 0, 0]"







text \<open>
  An archive in which \<open>os.walk\<close> finds a text file and two container files, and a
  dissection in which the load of the first container file raises and the second
  container file gets the signature named after it.
\<close>

definition archive_path :: Path where
  "archive_path = \<lparr>parent = ''models'', pname = ''bundle.tar''\<rparr>"

definition archive_files :: "Path \<Rightarrow> pyerr + Path list" where
  "archive_files p =
     Inr [\<lparr>parent = ''tmp'', pname = ''README.txt''\<rparr>,
          \<lparr>parent = ''tmp'', pname = ''a.gguf''\<rparr>,
          \<lparr>parent = ''tmp'', pname = ''B.GGUF''\<rparr>]"

definition signature_of_name :: "string \<Rightarrow> ModelSignature" where
  "signature_of_name nm =
     \<lparr>model_name = nm, total_parameters = 1000000000, capabilities = [], strengths = []\<rparr>"

definition first_raises :: "Path \<Rightarrow> pyerr + ModelSignature option" where
  "first_raises p =
     (if pname p = ''a.gguf'' then Inl OtherError
      else Inr (Some (signature_of_name (pname p))))"

text \<open>
  An arithmetic for the examples: the operations of doubles with no rounding of a
  finite result. A result too large for a double is an infinity, as rounding to
  nearest gives it; infinities and NaN combine as in IEEE 754; the two zeros are one
  number. No division of the code has a zero divisor, which Python refuses; here such
  a division is NaN. The sum adds from the left, starting at 0. These operations agree
  with those of doubles wherever the exact result is a double or exceeds the range.
\<close>

definition overflow_limit :: real where
  "overflow_limit = 2 ^ 1024 - 2 ^ 970"

definition finite_result :: "real \<Rightarrow> pyfloat" where
  "finite_result r =
     (if overflow_limit \<le> r then PInf else if r \<le> - overflow_limit then NInf else Fin r)"

definition sign_of :: "pyfloat \<Rightarrow> real" where
  "sign_of x = (case x of Fin r \<Rightarrow> sgn r | PInf \<Rightarrow> 1 | NInf \<Rightarrow> - 1 | NaN \<Rightarrow> 0)"

definition signed_infinity :: "real \<Rightarrow> pyfloat" where
  "signed_infinity s = (if 0 < s then PInf else if s < 0 then NInf else NaN)"

fun example_add :: "pyfloat \<Rightarrow> pyfloat \<Rightarrow> pyfloat" where
  "example_add (Fin a) (Fin b) = finite_result (a + b)"
| "example_add NaN y = NaN"
| "example_add x NaN = NaN"
| "example_add PInf NInf = NaN"
| "example_add NInf PInf = NaN"
| "example_add PInf y = PInf"
| "example_add x PInf = PInf"
| "example_add NInf y = NInf"
| "example_add x NInf = NInf"

fun example_mul :: "pyfloat \<Rightarrow> pyfloat \<Rightarrow> pyfloat" where
  "example_mul (Fin a) (Fin b) = finite_result (a * b)"
| "example_mul NaN y = NaN"
| "example_mul x NaN = NaN"
| "example_mul x y = signed_infinity (sign_of x * sign_of y)"

fun example_div :: "pyfloat \<Rightarrow> pyfloat \<Rightarrow> pyfloat" where
  "example_div (Fin a) (Fin b) = (if b = 0 then NaN else finite_result (a / b))"
| "example_div NaN y = NaN"
| "example_div x NaN = NaN"
| "example_div (Fin a) y = Fin 0"
| "example_div x (Fin b) = (if b = 0 then NaN else signed_infinity (sign_of x * sgn b))"
| "example_div x y = NaN"

definition example_arith :: farith where
  "example_arith =
     \<lparr>fsum = (\<lambda>xs. foldl example_add (Fin 0) xs), fadd = example_add,
      fmul = example_mul, fdiv = example_div\<rparr>"

text \<open>
  Signatures for the architect: two files of the same name, of which the first has a
  capability; the artifacts \<open>C\<close> and \<open>D\<close>, of which only \<open>C\<close> has one; an
  artifact whose probes all gave 0; the artifacts \<open>P\<close> and \<open>Q\<close>, each with the
  one strength 1 and no capability; three artifacts with the one strength \<open>2^1023\<close>;
  and the artifacts \<open>A\<close> and \<open>B\<close> of the routing example.
\<close>

definition lone_math :: ModelSignature where
  "lone_math = \<lparr>model_name = ''model'', total_parameters = 1000000000,
     capabilities = [\<lparr>cap_name = ''model_mathematics'', domain = ''mathematics'', strength = 1 / 2\<rparr>],
     strengths = []\<rparr>"

definition lone_none :: ModelSignature where
  "lone_none = \<lparr>model_name = ''model'', total_parameters = 3000000000, capabilities = [],
     strengths = []\<rparr>"

definition artifact_C :: ModelSignature where
  "artifact_C = \<lparr>model_name = ''C'', total_parameters = 1000000000,
     capabilities = [\<lparr>cap_name = ''C_reasoning'', domain = ''reasoning'', strength = 7 / 10\<rparr>],
     strengths = []\<rparr>"

definition artifact_D :: ModelSignature where
  "artifact_D = \<lparr>model_name = ''D'', total_parameters = 1000000000, capabilities = [],
     strengths = []\<rparr>"





definition artifact_A :: ModelSignature where
  "artifact_A = \<lparr>model_name = ''A'', total_parameters = 7000000000,
     capabilities =
       [\<lparr>cap_name = ''A_mathematics'', domain = ''mathematics'', strength = 9 / 10\<rparr>,
        \<lparr>cap_name = ''A_coding'', domain = ''coding'', strength = 2 / 10\<rparr>],
     strengths = []\<rparr>"

definition artifact_B :: ModelSignature where
  "artifact_B = \<lparr>model_name = ''B'', total_parameters = 7000000000,
     capabilities =
       [\<lparr>cap_name = ''B_mathematics'', domain = ''mathematics'', strength = 1 / 10\<rparr>,
        \<lparr>cap_name = ''B_coding'', domain = ''coding'', strength = 8 / 10\<rparr>],
     strengths = []\<rparr>"

section \<open>Properties of the container reader\<close>

lemma bindE_simps [simp]:
  "bindE (Inl e) k = Inl e"
  "bindE (Inr x) k = k x"
  by (simp_all add: bindE_def)

lemma example_machine [simp]:
  "read_error (opened bs) = example_read_error"
  "seek_error (opened bs) = example_seek_error"
  "content (opened bs) = bs"
  "pos (opened bs) = 0"
  by (simp_all add: opened_def)


lemma example_seek_small:
  "target < 9223372036854775807 \<Longrightarrow> example_seek_error target = None"
  by (simp add: example_seek_error_def)

text \<open>
  C1. The claim: a metadata entry whose type tag is none of the nine known ones makes
  the decoding fail. The source has no such failure: the last branch of
  \<open>_read_metadata_value\<close> returns \<open>None\<close>. Here an entry with the key \<open>k\<close> and
  the tag 9 is decoded without error, and the key is stored with the value \<open>None\<close>.
\<close>

theorem unknown_tag_counterexample:
  "extract_metadata (opened unknown_tag_entry) 1
     = Inr ([[107] \<mapsto> MNone], (opened unknown_tag_entry)\<lparr>pos := 13\<rparr>)"
  by (simp add: extract_metadata_def read_uint_def read_def unpack_uint_def
      decode_def read_metadata_value_def unknown_tag_entry_def opened_def
      example_read_error_def Let_def)

text \<open>
  C1, as the code has it. For every type tag above 8, \<open>_read_metadata_value\<close>
  raises nothing, reads no byte and returns \<open>None\<close>. So for every metadata entry
  whose key is read and decoded and whose tag is above 8, the loop of
  \<open>_extract_metadata\<close> stores \<open>None\<close> under the key and goes on with the next
  entry at the byte after the tag; a block of this one entry gives the dict with
  \<open>None\<close> under the key.
\<close>

theorem unknown_tag_stored_as_None:
  "(8 < value_type \<longrightarrow> read_metadata_value g value_type = Inr (MNone, g))
   \<and> (read_uint f 8 = Inr (key_len, f1) \<and> read f1 key_len = Inr (kb, f2)
        \<and> decode kb = Inr key \<and> read_uint f2 4 = Inr (tag, f3) \<and> 8 < tag \<longrightarrow>
        extract_metadata_loop f (Suc n) metadata
          = extract_metadata_loop f3 n (metadata(key \<mapsto> MNone))
        \<and> extract_metadata f 1 = Inr ([key \<mapsto> MNone], f3))"
  by (simp add: read_metadata_value_def extract_metadata_def)

lemma unknown_tag_entry_reads:
  "read_uint (opened unknown_tag_entry) 8 = Inr (1, (opened unknown_tag_entry)\<lparr>pos := 8\<rparr>)"
  "read ((opened unknown_tag_entry)\<lparr>pos := 8\<rparr>) 1
     = Inr ([107], (opened unknown_tag_entry)\<lparr>pos := 9\<rparr>)"
  "decode [107] = Inr [107]"
  "read_uint ((opened unknown_tag_entry)\<lparr>pos := 9\<rparr>) 4
     = Inr (9, (opened unknown_tag_entry)\<lparr>pos := 13\<rparr>)"
  by (simp_all add: read_uint_def read_def unpack_uint_def decode_def unknown_tag_entry_def
      opened_def example_read_error_def Let_def)

theorem unknown_tag_stored_as_None_witness:
  "(8::nat) < 9
   \<and> read_metadata_value ((opened unknown_tag_entry)\<lparr>pos := 13\<rparr>) 9
       = Inr (MNone, (opened unknown_tag_entry)\<lparr>pos := 13\<rparr>)
   \<and> read_uint (opened unknown_tag_entry) 8 = Inr (1, (opened unknown_tag_entry)\<lparr>pos := 8\<rparr>)
   \<and> read ((opened unknown_tag_entry)\<lparr>pos := 8\<rparr>) 1
       = Inr ([107], (opened unknown_tag_entry)\<lparr>pos := 9\<rparr>)
   \<and> decode [107] = Inr [107]
   \<and> read_uint ((opened unknown_tag_entry)\<lparr>pos := 9\<rparr>) 4
       = Inr (9, (opened unknown_tag_entry)\<lparr>pos := 13\<rparr>)
   \<and> extract_metadata_loop (opened unknown_tag_entry) (Suc 0) Map.empty
       = Inr ([[107] \<mapsto> MNone], (opened unknown_tag_entry)\<lparr>pos := 13\<rparr>)"
  using unknown_tag_stored_as_None
    [of 9 "(opened unknown_tag_entry)\<lparr>pos := 13\<rparr>" "opened unknown_tag_entry" 1
        "(opened unknown_tag_entry)\<lparr>pos := 8\<rparr>" "[107]"
        "(opened unknown_tag_entry)\<lparr>pos := 9\<rparr>" "[107]" 9
        "(opened unknown_tag_entry)\<lparr>pos := 13\<rparr>" 0 Map.empty]
    unknown_tag_entry_reads
  by simp

section \<open>Properties of the payload extractor\<close>

lemma same_file_refl [simp]: "same_file f f"
  by (simp add: same_file_def)

lemma same_file_pos [simp]: "same_file (f\<lparr>pos := p\<rparr>) g = same_file f g"
  "same_file f (g\<lparr>pos := p\<rparr>) = same_file f g"
  by (simp_all add: same_file_def)

lemma read_same: "read h n = Inr (bs, h') \<Longrightarrow> same_file h' h"
  by (auto simp: read_def Let_def same_file_def split: if_splits option.splits)

lemma seek_same: "seek f target = Inr h \<Longrightarrow> same_file h f"
  by (auto simp: seek_def same_file_def split: option.splits)

lemma seek_indep:
  assumes "same_file f g"
  shows "seek g target = seek f target"
proof -
  have eq: "g\<lparr>pos := target\<rparr> = f\<lparr>pos := target\<rparr>"
    using assms by (cases f; cases g) (simp add: same_file_def)
  have "seek_error g target = seek_error f target"
    using assms by (simp add: same_file_def)
  then show ?thesis
    unfolding seek_def eq by (simp only:)
qed

lemma tensor_step_same: "same_file (fst (tensor_step f t)) f"
proof (cases "seek f (offset t)")
  case (Inl e)
  then show ?thesis by (simp add: tensor_step_def)
next
  case (Inr f1)
  have f1: "same_file f1 f"
    using Inr by (rule seek_same)
  have r: "same_file h f" if "read f1 n = Inr (bs, h)" for n bs h
    using read_same [OF that] f1 by (simp add: same_file_def)
  show ?thesis
    using Inr f1 r
    by (auto simp: tensor_step_def Let_def split: sum.splits prod.splits)
qed

lemma tensor_step_indep:
  assumes "same_file f g"
  shows "snd (tensor_step f t) = snd (tensor_step g t)"
proof (cases "seek f (offset t)")
  case (Inl e)
  then show ?thesis
    using seek_indep [OF assms, of "offset t"] by (simp add: tensor_step_def)
next
  case (Inr f1)
  then have "tensor_step g t = tensor_step f t"
    using seek_indep [OF assms, of "offset t"] by (simp add: tensor_step_def)
  then show ?thesis by simp
qed

lemma same_file_trans: "same_file f g \<Longrightarrow> same_file g h \<Longrightarrow> same_file f h"
  by (simp add: same_file_def)

lemma same_file_sym: "same_file f g \<Longrightarrow> same_file g f"
  by (simp add: same_file_def)

lemma loop_indep:
  "same_file f g \<Longrightarrow>
   (case extract_tensor_data_loop f ts L lg of (L1, lg1, f1) \<Rightarrow> (L1, lg1))
   = (case extract_tensor_data_loop g ts L lg of (L1, lg1, f1) \<Rightarrow> (L1, lg1))"
proof (induction ts arbitrary: f g L lg)
  case Nil
  then show ?case by simp
next
  case (Cons t ts)
  obtain f' r where sf: "tensor_step f t = (f', r)"
    by (cases "tensor_step f t")
  obtain g' r' where sg: "tensor_step g t = (g', r')"
    by (cases "tensor_step g t")
  have "r = r'"
    using tensor_step_indep [OF Cons.prems, of t] sf sg by simp
  moreover have "same_file f' g'"
    using tensor_step_same [of f t] tensor_step_same [of g t] sf sg Cons.prems
    by (metis fst_conv same_file_sym same_file_trans)
  ultimately show ?case
    using sf sg Cons.IH [of f' g'] by (auto split: sum.splits option.splits)
qed

lemma loop_same: "same_file (snd (snd (extract_tensor_data_loop f ts L lg))) f"
proof (induction ts arbitrary: f L lg)
  case Nil
  then show ?case by simp
next
  case (Cons t ts)
  obtain f' r where sf: "tensor_step f t = (f', r)"
    by (cases "tensor_step f t")
  then have "same_file f' f"
    using tensor_step_same [of f t] by simp
  then show ?case
    using sf Cons.IH [of f'] by (auto split: sum.splits option.splits intro: same_file_trans)
qed

lemma loop_append:
  "extract_tensor_data_loop f (xs @ zs) L lg
   = (case extract_tensor_data_loop f xs L lg of
        (L1, lg1, f1) \<Rightarrow> extract_tensor_data_loop f1 zs L1 lg1)"
  by (induction xs arbitrary: f L lg) (auto split: prod.splits sum.splits option.splits)

lemma loop_log:
  "extract_tensor_data_loop f ts L (lg0 @ lg)
   = (case extract_tensor_data_loop f ts L lg of (L1, lg1, f1) \<Rightarrow> (L1, lg0 @ lg1, f1))"
proof (induction ts arbitrary: f L lg)
  case Nil
  then show ?case by simp
next
  case (Cons t ts)
  obtain f' r where sf: "tensor_step f t = (f', r)"
    by (cases "tensor_step f t")
  show ?case
  proof (cases r)
    case (Inl e)
    then show ?thesis
      using sf Cons.IH [of f' L "lg @ [FailedTensor (name t) e]"] by simp
  next
    case (Inr opt)
    then show ?thesis
      by (cases opt) (simp_all add: sf Cons.IH fun_upd_def)
  qed
qed

lemma loop_keeps:
  "k \<notin> name ` set ts \<Longrightarrow> fst (extract_tensor_data_loop f ts L lg) k = L k"
proof (induction ts arbitrary: f L lg)
  case Nil
  then show ?case by simp
next
  case (Cons t ts)
  obtain f' r where sf: "tensor_step f t = (f', r)"
    by (cases "tensor_step f t")
  have k: "k \<notin> name ` set ts" "k \<noteq> name t"
    using Cons.prems by auto
  show ?case
    using sf Cons.IH [OF k(1)] k(2) by (auto split: sum.splits option.splits)
qed

lemma loop_log_layers:
  "fst (snd (extract_tensor_data_loop f ts N lg)) = fst (snd (extract_tensor_data_loop f ts M lg))"
proof (induction ts arbitrary: f N M lg)
  case Nil
  then show ?case by simp
next
  case (Cons t ts)
  obtain f' r where sf: "tensor_step f t = (f', r)"
    by (cases "tensor_step f t")
  show ?case
  proof (cases r)
    case (Inl e)
    then show ?thesis
      using sf Cons.IH [of f' N "lg @ [FailedTensor (name t) e]" M] by simp
  next
    case (Inr opt)
    show ?thesis
    proof (cases opt)
      case None
      then show ?thesis
        using sf Inr Cons.IH [of f' N lg M] by simp
    next
      case (Some d)
      then show ?thesis
        using sf Inr
          Cons.IH [of f' "N(name t \<mapsto> \<lparr>data = d, shape = dims t, ltype = type t\<rparr>)" lg
                      "M(name t \<mapsto> \<lparr>data = d, shape = dims t, ltype = type t\<rparr>)"]
        by (simp add: fun_upd_def)
    qed
  qed
qed

lemma tensor_step_empty_shape:
  assumes "0 \<in> set (dims t)" "type t = 0 \<or> type t = 1" "seek_error f (offset t) = None"
  shows "tensor_step f t = (f\<lparr>pos := offset t\<rparr>, Inr (Some []))"
proof -
  have z: "prod_list (dims t) = 0"
    using assms(1) by (simp add: prod_list_zero_iff)
  show ?thesis
    using assms(2,3) by (auto simp: tensor_step_def seek_def read_def z unpack_f32s_def)
qed

text \<open>
  C7. The claim: a descriptor with a dimension 0 makes the extractor fail with
  \<open>EmptyShapeError\<close> and produce no buffer. The source computes the size 0, reads
  no byte and stores a buffer without data; nothing is raised and nothing is logged.
  Here the tensor \<open>w\<close> of shape \<open>[0, 3]\<close> and type F32 gets a buffer.
\<close>

theorem zero_dimension_counterexample:
  "extract_tensor_data ((opened [1, 2, 3, 4])\<lparr>pos := 2\<rparr>)
     [\<lparr>name = [119], dims = [0, 3], type = 0, offset = 0\<rparr>]
   = ([[119] \<mapsto> \<lparr>data = [], shape = [0, 3], ltype = 0\<rparr>], [], opened [1, 2, 3, 4])"
  by (simp add: extract_tensor_data_def tensor_step_def seek_def read_def
      unpack_f32s_def opened_def example_seek_error_def)

text \<open>
  C7, as the code has it. Let \<open>t\<close> be a descriptor with a dimension 0, of type F32
  or F16, whose offset the file accepts for a seek, at any place of the table. The
  loop comes to \<open>t\<close> with the buffers and the warnings of the entries before it,
  stores under the name of \<open>t\<close> a buffer with no data, and goes on with the entries
  after it from the offset of \<open>t\<close>. Unless an entry after \<open>t\<close> has the same name,
  the layers returned have this empty buffer under the name. The warnings are those
  of the table without \<open>t\<close>: nothing is logged for it.
\<close>

theorem zero_dimension_gives_empty_buffer:
  assumes "0 \<in> set (dims t)" "type t = 0 \<or> type t = 1" "seek_error f (offset t) = None"
  shows "(extract_tensor_data_loop f xs Map.empty [] = (L1, lg1, f1) \<longrightarrow>
            extract_tensor_data f (xs @ t # ys)
            = extract_tensor_data_loop (f1\<lparr>pos := offset t\<rparr>) ys
                (L1(name t \<mapsto> \<lparr>data = [], shape = dims t, ltype = type t\<rparr>)) lg1)
       \<and> (name t \<notin> name ` set ys \<longrightarrow>
            fst (extract_tensor_data f (xs @ t # ys)) (name t)
            = Some \<lparr>data = [], shape = dims t, ltype = type t\<rparr>)
       \<and> fst (snd (extract_tensor_data f (xs @ t # ys)))
           = fst (snd (extract_tensor_data f (xs @ ys)))"
proof -
  obtain M mg h where pre: "extract_tensor_data_loop f xs Map.empty [] = (M, mg, h)"
    by (cases "extract_tensor_data_loop f xs Map.empty []") auto
  have "same_file h f"
    using loop_same [of f xs Map.empty "[]"] pre by simp
  then have sk: "seek_error h (offset t) = None"
    using assms(3) by (simp add: same_file_def)
  let ?EB = "\<lparr>data = [], shape = dims t, ltype = type t\<rparr>"
  have step: "extract_tensor_data f (xs @ t # ys)
      = extract_tensor_data_loop (h\<lparr>pos := offset t\<rparr>) ys (M(name t \<mapsto> ?EB)) mg"
    by (simp add: extract_tensor_data_def loop_append pre
        tensor_step_empty_shape [OF assms(1,2) sk])
  have kept: "fst (extract_tensor_data f (xs @ t # ys)) (name t) = Some ?EB"
    if "name t \<notin> name ` set ys"
    unfolding step using loop_keeps [OF that] by simp
  have "fst (snd (extract_tensor_data_loop (h\<lparr>pos := offset t\<rparr>) ys (M(name t \<mapsto> ?EB)) mg))
      = fst (snd (extract_tensor_data_loop h ys M mg))"
  proof -
    have a: "(case extract_tensor_data_loop (h\<lparr>pos := offset t\<rparr>) ys (M(name t \<mapsto> ?EB)) mg of
               (a, b, c) \<Rightarrow> (a, b))
           = (case extract_tensor_data_loop h ys (M(name t \<mapsto> ?EB)) mg of (a, b, c) \<Rightarrow> (a, b))"
      by (rule loop_indep) simp
    have b: "fst (snd (extract_tensor_data_loop h ys (M(name t \<mapsto> ?EB)) mg))
           = fst (snd (extract_tensor_data_loop h ys M mg))"
      by (rule loop_log_layers)
    show ?thesis using a b by (auto split: prod.splits)
  qed
  then have logs: "fst (snd (extract_tensor_data f (xs @ t # ys)))
      = fst (snd (extract_tensor_data f (xs @ ys)))"
    unfolding step by (simp add: extract_tensor_data_def loop_append pre)
  show ?thesis
    using step kept logs pre by auto
qed

theorem zero_dimension_gives_empty_buffer_witness:
  "0 \<in> set (dims \<lparr>name = [119], dims = [0, 3], type = 1, offset = 0\<rparr>)
   \<and> type \<lparr>name = [119], dims = [0, 3], type = 1, offset = 0\<rparr> = 1
   \<and> seek_error (opened [1, 2, 3, 4]) (offset \<lparr>name = [119], dims = [0, 3], type = 1, offset = 0\<rparr>)
       = None
   \<and> extract_tensor_data_loop (opened [1, 2, 3, 4])
         [\<lparr>name = [97], dims = [1], type = 0, offset = 0\<rparr>] Map.empty []
       = ([[97] \<mapsto> \<lparr>data = [F32 67305985], shape = [1], ltype = 0\<rparr>], [],
          (opened [1, 2, 3, 4])\<lparr>pos := 4\<rparr>)
   \<and> extract_tensor_data (opened [1, 2, 3, 4])
         [\<lparr>name = [97], dims = [1], type = 0, offset = 0\<rparr>,
          \<lparr>name = [119], dims = [0, 3], type = 1, offset = 0\<rparr>]
       = ([[97] \<mapsto> \<lparr>data = [F32 67305985], shape = [1], ltype = 0\<rparr>,
           [119] \<mapsto> \<lparr>data = [], shape = [0, 3], ltype = 1\<rparr>], [],
          opened [1, 2, 3, 4])"
  using zero_dimension_gives_empty_buffer
    [of "\<lparr>name = [119], dims = [0, 3], type = 1, offset = 0\<rparr>" "opened [1, 2, 3, 4]"
        "[\<lparr>name = [97], dims = [1], type = 0, offset = 0\<rparr>]"
        "[[97] \<mapsto> \<lparr>data = [F32 67305985], shape = [1], ltype = 0\<rparr>]" "[]"
        "(opened [1, 2, 3, 4])\<lparr>pos := 4\<rparr>" "[]"]
  by (simp add: extract_tensor_data_def tensor_step_def seek_def read_def unpack_f32s_def
      opened_def example_seek_error_def example_read_error_def Let_def)

lemma tensor_step_unsupported:
  assumes "type t \<noteq> 0" "type t \<noteq> 1"
  shows "tensor_step f t
         = (case seek_error f (offset t) of
              Some e \<Rightarrow> (f, Inl e)
            | None \<Rightarrow> (f\<lparr>pos := offset t\<rparr>, Inr None))"
  using assms by (simp add: tensor_step_def seek_def split: option.splits)

text \<open>
  C8. The claim: a tensor whose type is neither F32 nor F16 yields no buffer, with a
  warning logged, and the rest of the table is extracted as before. The source leaves
  the tensor with \<open>continue\<close> and logs nothing for it. Here a tensor of type 2 gives
  no buffer and an empty log.
\<close>

theorem unsupported_type_counterexample:
  "extract_tensor_data (opened [1, 2, 3, 4])
     [\<lparr>name = [119], dims = [1], type = 2, offset = 0\<rparr>]
   = (Map.empty, [], opened [1, 2, 3, 4])"
  by (simp add: extract_tensor_data_def tensor_step_def seek_def opened_def
      example_seek_error_def)

text \<open>
  C8, as the code has it. Let \<open>t\<close> be a tensor whose type is neither F32 nor F16,
  at any place of the table. The buffers extracted are those of the table without
  \<open>t\<close>: \<open>t\<close> yields no buffer and the other entries are extracted as they would
  be without it. The seek to the offset of \<open>t\<close> comes before the test of its type.
  When the file accepts the offset, the warnings are those of the table without
  \<open>t\<close>: nothing is logged for the skipped tensor. When the seek raises, the
  \<open>except\<close> of the loop logs one warning for \<open>t\<close>, with the exception, after the
  warnings of the entries before \<open>t\<close> and before those of the entries after it.
\<close>

theorem unsupported_type_is_skipped:
  assumes "type t \<noteq> 0" "type t \<noteq> 1"
  shows "fst (extract_tensor_data f (xs @ t # ys)) = fst (extract_tensor_data f (xs @ ys))
       \<and> (seek_error f (offset t) = None \<longrightarrow>
            fst (snd (extract_tensor_data f (xs @ t # ys)))
            = fst (snd (extract_tensor_data f (xs @ ys))))
       \<and> (\<forall>e. seek_error f (offset t) = Some e \<longrightarrow>
            (\<exists>rest. fst (snd (extract_tensor_data f (xs @ ys)))
                       = fst (snd (extract_tensor_data f xs)) @ rest
                   \<and> fst (snd (extract_tensor_data f (xs @ t # ys)))
                       = fst (snd (extract_tensor_data f xs)) @ [FailedTensor (name t) e] @ rest))"
proof -
  obtain L1 lg1 f1 where pre: "extract_tensor_data_loop f xs Map.empty [] = (L1, lg1, f1)"
    by (cases "extract_tensor_data_loop f xs Map.empty []") auto
  have "same_file f1 f"
    using loop_same [of f xs Map.empty "[]"] pre by simp
  then have sk: "seek_error f1 (offset t) = seek_error f (offset t)"
    by (simp add: same_file_def)
  obtain L2 lg2 f2 where tail: "extract_tensor_data_loop f1 ys L1 [] = (L2, lg2, f2)"
    by (cases "extract_tensor_data_loop f1 ys L1 []") auto
  have without: "extract_tensor_data f (xs @ ys) = (L2, lg1 @ lg2, f2)"
    using loop_log [of f1 ys L1 lg1 "[]"] by (simp add: extract_tensor_data_def loop_append pre tail)
  have only_xs: "fst (snd (extract_tensor_data f xs)) = lg1"
    by (simp add: extract_tensor_data_def pre)
  show ?thesis
  proof (cases "seek_error f (offset t)")
    case (Some e)
    have "extract_tensor_data f (xs @ t # ys)
        = extract_tensor_data_loop f1 ys L1 (lg1 @ [FailedTensor (name t) e])"
      using Some sk
      by (simp add: extract_tensor_data_def loop_append pre tensor_step_unsupported [OF assms])
    also have "\<dots> = (L2, (lg1 @ [FailedTensor (name t) e]) @ lg2, f2)"
      using loop_log [of f1 ys L1 "lg1 @ [FailedTensor (name t) e]" "[]"] by (simp add: tail)
    finally show ?thesis
      using Some without only_xs by simp
  next
    case None
    have w: "extract_tensor_data f (xs @ t # ys)
        = extract_tensor_data_loop (f1\<lparr>pos := offset t\<rparr>) ys L1 lg1"
      using None sk
      by (simp add: extract_tensor_data_def loop_append pre tensor_step_unsupported [OF assms])
    have "(case extract_tensor_data_loop (f1\<lparr>pos := offset t\<rparr>) ys L1 lg1 of
             (a, b, c) \<Rightarrow> (a, b))
        = (case extract_tensor_data_loop f1 ys L1 lg1 of (a, b, c) \<Rightarrow> (a, b))"
      by (rule loop_indep) simp
    moreover have "extract_tensor_data_loop f1 ys L1 lg1 = (L2, lg1 @ lg2, f2)"
      using loop_log [of f1 ys L1 lg1 "[]"] by (simp add: tail)
    ultimately show ?thesis
      using None w without by (auto split: prod.splits)
  qed
qed

theorem unsupported_type_is_skipped_witness:
  "type \<lparr>name = [98], dims = [1], type = 2, offset = 0\<rparr> \<noteq> 0
   \<and> type \<lparr>name = [98], dims = [1], type = 2, offset = 0\<rparr> \<noteq> 1
   \<and> seek_error (opened [0, 0, 128, 63, 0, 60])
         (offset \<lparr>name = [98], dims = [1], type = 2, offset = 0\<rparr>) = None
   \<and> extract_tensor_data (opened [0, 0, 128, 63, 0, 60])
          [\<lparr>name = [97], dims = [1], type = 0, offset = 0\<rparr>,
           \<lparr>name = [98], dims = [1], type = 2, offset = 0\<rparr>,
           \<lparr>name = [99], dims = [1], type = 1, offset = 4\<rparr>]
       = ([[97] \<mapsto> \<lparr>data = [F32 1065353216], shape = [1], ltype = 0\<rparr>,
           [99] \<mapsto> \<lparr>data = [F16 15360], shape = [1], ltype = 1\<rparr>], [],
          (opened [0, 0, 128, 63, 0, 60])\<lparr>pos := 6\<rparr>)
   \<and> seek_error (opened [0, 0, 128, 63, 0, 60])
         (offset \<lparr>name = [98], dims = [1], type = 2, offset = 9223372036854775807\<rparr>)
       = Some OSError
   \<and> extract_tensor_data (opened [0, 0, 128, 63, 0, 60])
          [\<lparr>name = [97], dims = [1], type = 0, offset = 0\<rparr>,
           \<lparr>name = [98], dims = [1], type = 2, offset = 9223372036854775807\<rparr>,
           \<lparr>name = [99], dims = [1], type = 1, offset = 4\<rparr>]
       = ([[97] \<mapsto> \<lparr>data = [F32 1065353216], shape = [1], ltype = 0\<rparr>,
           [99] \<mapsto> \<lparr>data = [F16 15360], shape = [1], ltype = 1\<rparr>],
          [FailedTensor [98] OSError],
          (opened [0, 0, 128, 63, 0, 60])\<lparr>pos := 6\<rparr>)"
  using unsupported_type_is_skipped
    [of "\<lparr>name = [98], dims = [1], type = 2, offset = 0\<rparr>"
        "opened [0, 0, 128, 63, 0, 60]"
        "[\<lparr>name = [97], dims = [1], type = 0, offset = 0\<rparr>]"
        "[\<lparr>name = [99], dims = [1], type = 1, offset = 4\<rparr>]"]
    unsupported_type_is_skipped
    [of "\<lparr>name = [98], dims = [1], type = 2, offset = 9223372036854775807\<rparr>"
        "opened [0, 0, 128, 63, 0, 60]"
        "[\<lparr>name = [97], dims = [1], type = 0, offset = 0\<rparr>]"
        "[\<lparr>name = [99], dims = [1], type = 1, offset = 4\<rparr>]"]
  by (simp add: extract_tensor_data_def tensor_step_def seek_def read_def unpack_f32s_def
      opened_def example_seek_error_def example_read_error_def Let_def)

section \<open>Properties of reads at the end of the stream\<close>


lemma read_refused: "0 < n \<Longrightarrow> read_error f n = Some e \<Longrightarrow> read f n = Inl e"
  by (simp add: read_def)



















section \<open>Properties of the dissection of an archive\<close>

text \<open>
  C10. The claim: an archive gives the signature of the first of its container files
  that dissects successfully. The comment above the loop over the extracted files says
  the same: each extracted model is dissected and the first successful one returned.
  The loop goes on to the next file only when \<open>_dissect_gguf_model\<close> returns nothing,
  but a file that cannot be loaded makes it raise, and the exception leaves the loop
  and the function. In the archive of the example the first container file raises and
  the second, dissected on its own, gets a signature: the loop ends with the
  exception, the archive gives no signature and adds nothing to the list of the run.
\<close>

theorem first_failure_ends_archive:
  "dissect_model_structure archive_files first_raises \<lparr>parent = ''tmp'', pname = ''B.GGUF''\<rparr>
     = Some (signature_of_name ''B.GGUF'')
   \<and> first_successful first_raises
       [\<lparr>parent = ''tmp'', pname = ''a.gguf''\<rparr>, \<lparr>parent = ''tmp'', pname = ''B.GGUF''\<rparr>]
     = Inl OtherError
   \<and> dissect_model_structure archive_files first_raises archive_path = None
   \<and> dissect_all archive_files first_raises [archive_path] = []"
  by (simp add: dissect_model_structure_def path_suffix_def archive_path_def archive_files_def
      first_raises_def endswith_def lower_def lower_char_def char_of_def bit_Suc_0_iff)

section \<open>Properties of the weight merger\<close>

text \<open>
  C3. The claim: every input tensor is in the unified model exactly once, under a name
  of its own. The branch of the feed-forward layers names a layer
  \<open>unified_ffn_{layer_counter}\<close> and, unlike the branches of the attention layers
  and of the general blocks, does not advance the counter. Two feed-forward layers of
  one model, with no attention layer or general block between them, get the same name,
  and the second replaces the first: of the two tensors of the input, one is left.
\<close>

theorem ffn_layers_overwritten:
  "merge_extracted_weights
     [Some [(''blk.0.ffn_up.weight'', 1::nat), (''blk.0.ffn_down.weight'', 2)]]
   = \<lparr>embedding_layers = [], transformer_blocks = [], attention_layers = [],
      feed_forward_layers = [(''unified_ffn_0'', 2)]\<rparr>"
  by (simp add: merge_extracted_weights_def merge_layer_def lower_def lower_char_def digit_def
      char_of_def bit_Suc_0_iff)

section \<open>Properties of the probe score\<close>

lemma isin_iff: "isin t s \<longleftrightarrow> (\<exists>i \<in> {0..length s}. take (length t) (drop i s) = t)"
proof (induction s)
  case Nil
  then show ?case by auto
next
  case (Cons c cs)
  have "(\<exists>i \<in> {0..length (c # cs)}. take (length t) (drop i (c # cs)) = t)
      \<longleftrightarrow> take (length t) (c # cs) = t \<or> (\<exists>i \<in> {0..length cs}. take (length t) (drop i cs) = t)"
  proof
    assume "\<exists>i \<in> {0..length (c # cs)}. take (length t) (drop i (c # cs)) = t"
    then obtain i where i: "i \<le> length (c # cs)" "take (length t) (drop i (c # cs)) = t" by auto
    show "take (length t) (c # cs) = t \<or> (\<exists>i \<in> {0..length cs}. take (length t) (drop i cs) = t)"
    proof (cases i)
      case 0
      then show ?thesis using i by simp
    next
      case (Suc j)
      then have "j \<in> {0..length cs}" "take (length t) (drop j cs) = t" using i by auto
      then show ?thesis by blast
    qed
  next
    assume "take (length t) (c # cs) = t \<or> (\<exists>i \<in> {0..length cs}. take (length t) (drop i cs) = t)"
    then show "\<exists>i \<in> {0..length (c # cs)}. take (length t) (drop i (c # cs)) = t"
    proof
      assume "take (length t) (c # cs) = t"
      then have "take (length t) (drop 0 (c # cs)) = t" by simp
      then show ?thesis by (intro bexI [of _ 0]) auto
    next
      assume "\<exists>i \<in> {0..length cs}. take (length t) (drop i cs) = t"
      then obtain i where "i \<le> length cs" "take (length t) (drop i cs) = t" by auto
      then have "Suc i \<in> {0..length (c # cs)}" "take (length t) (drop (Suc i) (c # cs)) = t" by auto
      then show ?thesis by blast
    qed
  qed
  then show ?case using Cons.IH by simp
qed

lemma isin_lower: "isin (lower t) (lower r) \<longleftrightarrow> ci_isin t r"
  by (simp add: isin_iff ci_isin_def lower_def take_map drop_map)

lemma hits_lower_spec:
  "hits_lower ind r = real (length (filter (\<lambda>t. ci_isin t r) ind)) / real (length ind)"
  by (simp add: hits_lower_def isin_lower)

lemma ratio_bounds: "0 \<le> real (length (filter P xs)) / real (length xs)"
  "real (length (filter P xs)) / real (length xs) \<le> 1"
proof -
  show "0 \<le> real (length (filter P xs)) / real (length xs)" by simp
  have "length (filter P xs) \<le> length xs" by simp
  then show "real (length (filter P xs)) / real (length xs) \<le> 1"
    by (cases "xs = []") (simp_all add: divide_le_eq_1)
qed

lemma score_range: "0 \<le> score_response p r d \<and> score_response p r d \<le> 1"
proof -
  have b: "0 \<le> min (3 / 10) (real (length r) / 100)" by simp
  have h1: "0 \<le> hits_exact ind r" for ind by (simp add: hits_exact_def)
  have h2: "0 \<le> hits_lower ind r" for ind by (simp add: hits_lower_def)
  show ?thesis
    using b h1 h2 by (auto simp: score_response_def Let_def intro!: add_nonneg_nonneg)
qed

lemma isin_single: "isin [c] s \<longleftrightarrow> c \<in> set s"
  by (induction s) auto

lemma ci_isin_single: "ci_isin [c] r \<longleftrightarrow> (\<exists>a \<in> set r. lower_char a = lower_char c)"
proof -
  have "ci_isin [c] r \<longleftrightarrow> lower_char c \<in> lower_char ` set r"
    by (simp add: isin_lower [symmetric] lower_def isin_single)
  then show ?thesis by (metis image_iff)
qed

lemma of_char_lower_char:
  "(of_char (lower_char a) :: nat)
   = (if (65 \<le> (of_char a :: nat) \<and> (of_char a :: nat) \<le> 90)
         \<or> (192 \<le> (of_char a :: nat) \<and> (of_char a :: nat) \<le> 222 \<and> (of_char a :: nat) \<noteq> 215)
      then of_char a + 32 else of_char a)"
  by (simp add: lower_char_def Let_def)

lemma lower_char_eqD:
  assumes "lower_char a = lower_char c"
  shows "a = c
       \<or> ((65 \<le> (of_char a :: nat) \<and> (of_char a :: nat) \<le> 90
            \<or> 192 \<le> (of_char a :: nat) \<and> (of_char a :: nat) \<le> 222)
           \<and> (of_char a :: nat) + 32 = of_char c)
       \<or> (65 \<le> (of_char c :: nat) \<and> (of_char c :: nat) \<le> 90
            \<or> 192 \<le> (of_char c :: nat) \<and> (of_char c :: nat) \<le> 222)"
proof -
  have eq: "(of_char (lower_char a) :: nat) = of_char (lower_char c)"
    using assms by simp
  show ?thesis
  proof (cases "a = c")
    case True
    then show ?thesis by simp
  next
    case False
    then have ne: "(of_char a :: nat) \<noteq> of_char c" by simp
    show ?thesis
      using eq ne unfolding of_char_lower_char by (simp split: if_splits) linarith+
  qed
qed

lemma char_X: "(of_char a :: nat) = 88 \<Longrightarrow> a = CHR ''X''"
proof -
  assume "(of_char a :: nat) = 88"
  then have "(of_char a :: nat) = of_char (CHR ''X'')" by simp
  then show ?thesis by (simp only: of_char_eq_iff)
qed

lemma char_Y: "(of_char a :: nat) = 89 \<Longrightarrow> a = CHR ''Y''"
proof -
  assume "(of_char a :: nat) = 89"
  then have "(of_char a :: nat) = of_char (CHR ''Y'')" by simp
  then show ?thesis by (simp only: of_char_eq_iff)
qed

lemma math_indicator_chars:
  "t \<in> set math_indicators \<Longrightarrow>
   \<exists>c. t = [c] \<and> ((of_char c :: nat) < 65 \<or> (of_char c :: nat) = 120 \<or> (of_char c :: nat) = 121)"
  unfolding math_indicators_def by (elim disjE | simp)+

lemma math_term_case:
  assumes "CHR ''X'' \<notin> set r" "CHR ''Y'' \<notin> set r" "t \<in> set math_indicators"
  shows "ci_isin t r = isin t r"
proof -
  obtain c where t: "t = [c]" and
    c: "(of_char c :: nat) < 65 \<or> (of_char c :: nat) = 120 \<or> (of_char c :: nat) = 121"
    using math_indicator_chars [OF assms(3)] by blast
  have "a = c" if a: "a \<in> set r" "lower_char a = lower_char c" for a
  proof -
    have "(of_char a :: nat) \<noteq> 88" "(of_char a :: nat) \<noteq> 89"
      using a(1) assms(1,2) char_X char_Y by auto
    then show ?thesis
      using lower_char_eqD [OF a(2)] c by linarith
  qed
  then show ?thesis
    unfolding t ci_isin_single isin_single by auto
qed

lemma hits_math:
  assumes "CHR ''X'' \<notin> set r" "CHR ''Y'' \<notin> set r"
  shows "hits_exact math_indicators r
       = real (length (filter (\<lambda>t. ci_isin t r) math_indicators)) / real (length math_indicators)"
proof -
  have "filter (\<lambda>t. isin t r) math_indicators = filter (\<lambda>t. ci_isin t r) math_indicators"
    by (rule filter_cong) (simp_all add: math_term_case [OF assms])
  then show ?thesis by (simp add: hits_exact_def)
qed

lemma nonblank_score:
  "strip r \<noteq> [] \<Longrightarrow> d \<in> set expert_domains \<Longrightarrow>
   (d = ''mathematics'' \<longrightarrow> CHR ''X'' \<notin> set r \<and> CHR ''Y'' \<notin> set r) \<Longrightarrow>
   score_response p r d = spec_probe_score d r"
proof -
  assume nb: "strip r \<noteq> []" and d: "d \<in> set expert_domains"
    and m: "d = ''mathematics'' \<longrightarrow> CHR ''X'' \<notin> set r \<and> CHR ''Y'' \<notin> set r"
  let ?x = "real (length (filter (\<lambda>t. ci_isin t r) (indicators_of d)))
              / real (length (indicators_of d)) + min (3 / 10) (real (length r) / 100)"
  have x0: "0 \<le> ?x" by (intro add_nonneg_nonneg) simp_all
  have code: "score_response p r d = min 1 ?x"
  proof (cases "d = ''mathematics''")
    case True
    then show ?thesis
      using nb m by (simp add: score_response_def indicators_of_def hits_math)
  next
    case False
    then show ?thesis
      using nb d
      by (auto simp: score_response_def indicators_of_def hits_lower_spec expert_domains_def)
  qed
  show ?thesis
    unfolding code spec_probe_score_def Let_def using x0 by simp
qed

text \<open>
  C9, as the code has it, for each of the six domains. A response that is empty or
  white space only scores 0. Any other response scores what the specification says:
  the share of the domain's indicator terms that appear in it, case ignored, plus the
  length bonus, clamped to the interval from 0 to 1; for mathematics this is stated
  for the responses without a capital X or Y, the only ones on which matching with and
  without regard to case can differ for its terms. Every score lies between 0 and 1.
\<close>

theorem probe_score:
  assumes "d \<in> set expert_domains"
  shows "(strip r = [] \<longrightarrow> score_response p r d = 0)
     \<and> (strip r \<noteq> [] \<and> (d = ''mathematics'' \<longrightarrow> CHR ''X'' \<notin> set r \<and> CHR ''Y'' \<notin> set r)
          \<longrightarrow> score_response p r d = spec_probe_score d r)
     \<and> 0 \<le> score_response p r d \<and> score_response p r d \<le> 1"
  using assms nonblank_score [of r d p] score_range [of p r d]
  by (simp add: score_response_def)

lemma blank_code: "score_response ''Debug this'' '' '' ''coding'' = 0"
  by (simp add: score_response_def strip_def is_space_def)

lemma blank_spec: "spec_probe_score ''coding'' '' '' = 1 / 100"
  by (simp add: spec_probe_score_def indicators_of_def code_indicators_def
      isin_lower [symmetric] lower_def lower_char_def char_of_def bit_Suc_0_iff)

text \<open>
  C9. The claim: for every response the score is the share of indicator terms found,
  case ignored, plus the length bonus, clamped. The source returns 0 at once for a
  response that is empty after \<open>strip\<close>, before any bonus: a response of one space
  scores 0 where the formula gives the bonus 0.01.
\<close>

theorem blank_response_counterexample:
  "score_response ''Debug this'' '' '' ''coding'' = 0
   \<and> spec_probe_score ''coding'' '' '' = 1 / 100"
  using blank_code blank_spec by simp

theorem probe_score_witness:
  "''mathematics'' \<in> set expert_domains
   \<and> strip ''x = 5'' \<noteq> []
   \<and> CHR ''X'' \<notin> set ''x = 5'' \<and> CHR ''Y'' \<notin> set ''x = 5''
   \<and> score_response ''Solve for x: 2x + 5 = 13'' ''x = 5'' ''mathematics'' = 77 / 340
   \<and> spec_probe_score ''mathematics'' ''x = 5'' = 77 / 340
   \<and> ''coding'' \<in> set expert_domains
   \<and> strip '' '' = []
   \<and> score_response ''Debug this'' '' '' ''coding'' = 0"
  using probe_score [of "''mathematics''" "''x = 5''" "''Solve for x: 2x + 5 = 13''"]
    probe_score [of "''coding''" "'' ''" "''Debug this''"]
  by (simp add: expert_domains_def strip_def is_space_def score_response_def hits_exact_def
      math_indicators_def)

section \<open>Properties of the supermodel architect\<close>

lemma update_fresh: "k \<notin> fst ` set al \<Longrightarrow> AList.update k v al = al @ [(k, v)]"
  by (induction al) auto

lemma fold_update_distinct:
  "distinct (map fst ms) \<Longrightarrow> fst ` set acc \<inter> fst ` set ms = {} \<Longrightarrow>
   fold (\<lambda>(nm, sg) row. AList.update nm (g sg) row) ms acc
   = acc @ map (\<lambda>(nm, sg). (nm, g sg)) ms"
proof (induction ms arbitrary: acc)
  case Nil
  then show ?case by simp
next
  case (Cons a ms)
  obtain nm sg where a: "a = (nm, sg)" by (cases a)
  have fresh: "nm \<notin> fst ` set acc" using Cons.prems(2) a by auto
  have "fst ` set (acc @ [(nm, g sg)]) \<inter> fst ` set ms = {}"
    using Cons.prems a by auto
  then have "fold (\<lambda>(nm, sg) row. AList.update nm (g sg) row) ms (acc @ [(nm, g sg)])
      = (acc @ [(nm, g sg)]) @ map (\<lambda>(nm, sg). (nm, g sg)) ms"
    using Cons.IH [of "acc @ [(nm, g sg)]"] Cons.prems(1) by simp
  then show ?case using a fresh by (simp add: update_fresh)
qed

lemma keys_model_signatures:
  "map fst (fold (\<lambda>sg ms. AList.update (model_name sg) sg ms) sigs acc)
   = map fst acc @ filter (\<lambda>n. n \<notin> fst ` set acc) (first_seen (map model_name sigs))"
proof (induction sigs arbitrary: acc)
  case Nil
  then show ?case by simp
next
  case (Cons s sigs)
  let ?k = "model_name s"
  show ?case
  proof (cases "?k \<in> fst ` set acc")
    case True
    then have keys: "map fst (AList.update ?k s acc) = map fst acc"
      by (simp add: update_keys)
    have "fst ` set (AList.update ?k s acc) = fst ` set acc"
      using True by (auto simp: dom_update)
    moreover have "filter (\<lambda>n. n \<notin> fst ` set acc) (filter (\<lambda>y. y \<noteq> ?k) xs)
        = filter (\<lambda>n. n \<notin> fst ` set acc) xs" for xs
      using True by (induction xs) auto
    ultimately show ?thesis
      using Cons.IH [of "AList.update ?k s acc"] True keys by simp
  next
    case False
    then have keys: "map fst (AList.update ?k s acc) = map fst acc @ [?k]"
      by (simp add: update_keys)
    have dom: "fst ` set (AList.update ?k s acc) = insert ?k (fst ` set acc)"
      by (auto simp: dom_update)
    have "filter (\<lambda>n. n \<notin> insert ?k (fst ` set acc)) xs
        = filter (\<lambda>n. n \<notin> fst ` set acc) (filter (\<lambda>y. y \<noteq> ?k) xs)" for xs
      by (induction xs) auto
    then show ?thesis
      using Cons.IH [of "AList.update ?k s acc"] False keys dom by simp
  qed
qed

lemma keys_first_seen:
  "map fst (model_signatures_of sigs) = first_seen (map model_name sigs)"
  using keys_model_signatures [of sigs "[]"] by (simp add: model_signatures_of_def)

lemma distinct_first_seen: "distinct (first_seen xs)"
  by (induction xs) auto

lemma distinct_model_signatures: "distinct (map fst (model_signatures_of sigs))"
  by (simp add: keys_first_seen distinct_first_seen)

lemma matrix_row_map:
  "distinct (map fst ms) \<Longrightarrow>
   matrix_row ms d = map (\<lambda>(nm, sg). (nm, domain_strength sg d)) ms"
  using fold_update_distinct [of ms "[]" "\<lambda>sg. domain_strength sg d"]
  by (simp add: matrix_row_def)

lemma model_signatures_distinct_names:
  "distinct (map model_name sigs) \<Longrightarrow>
   model_signatures_of sigs = map (\<lambda>s. (model_name s, s)) sigs"
proof -
  assume d: "distinct (map model_name sigs)"
  have "fold (\<lambda>sg ms. AList.update (model_name sg) sg ms) sigs acc
      = acc @ map (\<lambda>s. (model_name s, s)) sigs"
    if "distinct (map model_name sigs)" "fst ` set acc \<inter> model_name ` set sigs = {}"
    for acc
    using that
  proof (induction sigs arbitrary: acc)
    case Nil
    then show ?case by simp
  next
    case (Cons s sigs)
    have fresh: "model_name s \<notin> fst ` set acc" using Cons.prems(2) by auto
    have "fst ` set (acc @ [(model_name s, s)]) \<inter> model_name ` set sigs = {}"
      using Cons.prems by auto
    then show ?case
      using Cons.IH [of "acc @ [(model_name s, s)]"] Cons.prems(1) fresh
      by (simp add: update_fresh)
  qed
  from this [of "[]"] d show ?thesis by (simp add: model_signatures_of_def)
qed

lemma map_of_row:
  assumes "distinct (map fst ms)" "(nm, sg) \<in> set ms"
  shows "map_of (map (\<lambda>(nm, sg). (nm, g sg)) ms) nm = Some (g sg)"
proof -
  have "distinct (map fst (map (\<lambda>(nm, sg). (nm, g sg)) ms))"
    using assms(1) by (simp add: comp_def case_prod_unfold)
  moreover have "(nm, g sg) \<in> set (map (\<lambda>(nm, sg). (nm, g sg)) ms)"
    using assms(2) by force
  ultimately show ?thesis by (rule map_of_is_SomeI)
qed

lemma domain_strength_absent:
  "\<forall>c \<in> set (capabilities sg). domain c \<noteq> d \<Longrightarrow> domain_strength sg d = 0"
  by (simp add: domain_strength_def Let_def filter_empty_conv)

text \<open>
  C6, as the code has it. The architect keeps one signature for each model name, the
  last one given. Over the signatures it keeps the matrix is dense: for every domain in
  the capability set of a kept signature the matrix has a row, the row has one entry
  for each kept artifact, in their order, and the entry of an artifact is its mean
  strength in the domain, 0 when it has no capability there. When the model names of
  the signatures given are pairwise distinct, all of them are kept.
\<close>

theorem capability_matrix_dense:
  "((nm, sg) \<in> set (model_signatures_of sigs) \<and> cap \<in> set (capabilities sg)
      \<and> (nm', sg') \<in> set (model_signatures_of sigs) \<longrightarrow>
      (\<exists>row. build_capability_matrix (model_signatures_of sigs) (domain cap) = Some row
         \<and> map fst row = map fst (model_signatures_of sigs)
         \<and> map_of row nm' = Some (domain_strength sg' (domain cap))
         \<and> ((\<forall>c \<in> set (capabilities sg'). domain c \<noteq> domain cap) \<longrightarrow> map_of row nm' = Some 0)))
   \<and> (distinct (map model_name sigs) \<longrightarrow>
        model_signatures_of sigs = map (\<lambda>s. (model_name s, s)) sigs)"
proof (intro conjI impI)
  let ?ms = "model_signatures_of sigs"
  assume h: "(nm, sg) \<in> set ?ms \<and> cap \<in> set (capabilities sg) \<and> (nm', sg') \<in> set ?ms"
  have dist: "distinct (map fst ?ms)" by (rule distinct_model_signatures)
  have "domain cap \<in> set (all_domains ?ms)"
    using h by (force simp: all_domains_def)
  then have row: "build_capability_matrix ?ms (domain cap) = Some (matrix_row ?ms (domain cap))"
    by (simp add: build_capability_matrix_def)
  have rm: "matrix_row ?ms (domain cap) = map (\<lambda>(nm, sg). (nm, domain_strength sg (domain cap))) ?ms"
    by (rule matrix_row_map [OF dist])
  have keys: "map fst (matrix_row ?ms (domain cap)) = map fst ?ms"
    unfolding rm by (simp add: comp_def case_prod_unfold)
  have entry: "map_of (matrix_row ?ms (domain cap)) nm' = Some (domain_strength sg' (domain cap))"
    unfolding rm using h by (intro map_of_row [OF dist]) simp
  show "\<exists>row. build_capability_matrix ?ms (domain cap) = Some row
         \<and> map fst row = map fst ?ms
         \<and> map_of row nm' = Some (domain_strength sg' (domain cap))
         \<and> ((\<forall>c \<in> set (capabilities sg'). domain c \<noteq> domain cap) \<longrightarrow> map_of row nm' = Some 0)"
    using row keys entry by (auto simp: domain_strength_absent)
next
  assume "distinct (map model_name sigs)"
  then show "model_signatures_of sigs = map (\<lambda>s. (model_name s, s)) sigs"
    by (rule model_signatures_distinct_names)
qed

lemma ms_lone: "model_signatures_of [lone_math, lone_none] = [(''model'', lone_none)]"
  by (simp add: model_signatures_of_def lone_math_def lone_none_def)

text \<open>
  C6. The claim: for every domain in the capability set of any signature given, every
  artifact has an entry. Two files in different directories can have the same stem
  and so the same model name; the second signature then replaces the first in the
  dict \<open>model_signatures\<close>. Here the first has a capability in mathematics and the
  second has none: the matrix has no row for mathematics.
\<close>

theorem same_name_counterexample:
  "build_capability_matrix (model_signatures_of [lone_math, lone_none]) ''mathematics'' = None"
  unfolding ms_lone by (simp add: build_capability_matrix_def all_domains_def lone_none_def)

lemma ms_CD: "model_signatures_of [artifact_C, artifact_D] = [(''C'', artifact_C), (''D'', artifact_D)]"
  by (simp add: model_signatures_of_def artifact_C_def artifact_D_def)

theorem capability_matrix_dense_witness:
  "(''C'', artifact_C) \<in> set (model_signatures_of [artifact_C, artifact_D])
   \<and> \<lparr>cap_name = ''C_reasoning'', domain = ''reasoning'', strength = 7 / 10\<rparr>
        \<in> set (capabilities artifact_C)
   \<and> (''D'', artifact_D) \<in> set (model_signatures_of [artifact_C, artifact_D])
   \<and> list_all (\<lambda>c. domain c \<noteq> ''reasoning'') (capabilities artifact_D)
   \<and> distinct (map model_name [artifact_C, artifact_D])
   \<and> build_capability_matrix (model_signatures_of [artifact_C, artifact_D]) ''reasoning''
       = Some [(''C'', 7 / 10), (''D'', 0)]"
  using capability_matrix_dense [of "''C''" artifact_C "[artifact_C, artifact_D]"
      "\<lparr>cap_name = ''C_reasoning'', domain = ''reasoning'', strength = 7 / 10\<rparr>" "''D''" artifact_D]
  by (simp add: ms_CD build_capability_matrix_def all_domains_def matrix_row_def
      domain_strength_def)
     (simp add: artifact_C_def artifact_D_def)



















lemma fold_max:
  fixes x :: "'a \<times> real"
  defines "step \<equiv> (\<lambda>y best. if snd best < snd y then y else best)"
  shows "\<exists>before after.
     x # xs = before @ fold step xs x # after
     \<and> (\<forall>e \<in> set before. snd e < snd (fold step xs x))
     \<and> (\<forall>e \<in> set (x # xs). snd e \<le> snd (fold step xs x))"
proof (induction xs arbitrary: x)
  case Nil
  have "[x] = [] @ fold step [] x # []" by simp
  then show ?case by fastforce
next
  case (Cons a xs)
  show ?case
  proof (cases "snd x < snd a")
    case True
    then have f: "fold step (a # xs) x = fold step xs a" by (simp add: step_def)
    obtain before after where
      eq: "a # xs = before @ fold step xs a # after" and
      lt: "\<forall>e \<in> set before. snd e < snd (fold step xs a)" and
      le: "\<forall>e \<in> set (a # xs). snd e \<le> snd (fold step xs a)"
      using Cons.IH [of a] by blast
    have a_le: "snd a \<le> snd (fold step xs a)" using le by simp
    have 1: "x # a # xs = (x # before) @ fold step xs a # after" using eq by simp
    have 2: "\<forall>e \<in> set (x # before). snd e < snd (fold step xs a)"
      using lt True a_le by auto
    have 3: "\<forall>e \<in> set (x # a # xs). snd e \<le> snd (fold step xs a)"
      using le True a_le by auto
    show ?thesis unfolding f using 1 2 3 by blast
  next
    case False
    then have f: "fold step (a # xs) x = fold step xs x" by (simp add: step_def)
    obtain before after where
      eq: "x # xs = before @ fold step xs x # after" and
      lt: "\<forall>e \<in> set before. snd e < snd (fold step xs x)" and
      le: "\<forall>e \<in> set (x # xs). snd e \<le> snd (fold step xs x)"
      using Cons.IH [of x] by blast
    have x_le: "snd x \<le> snd (fold step xs x)" using le by simp
    have 3: "\<forall>e \<in> set (x # a # xs). snd e \<le> snd (fold step xs x)"
      using le False x_le by auto
    show ?thesis
    proof (cases before)
      case Nil
      then have "x = fold step xs x" using eq by (metis append_Nil list.inject)
      then have 1: "x # a # xs = [] @ fold step xs x # (a # xs)" by simp
      have 2: "\<forall>e \<in> set []. snd e < snd (fold step xs x)" by simp
      show ?thesis unfolding f using 1 2 3 by blast
    next
      case (Cons b before')
      then have bx: "b = x" and rest: "xs = before' @ fold step xs x # after"
        using eq by auto
      have x_lt: "snd x < snd (fold step xs x)" using lt Cons bx by simp
      then have a_lt: "snd a < snd (fold step xs x)" using False by simp
      have 1: "x # a # xs = (x # a # before') @ fold step xs x # after"
        using rest by simp
      have 2: "\<forall>e \<in> set (x # a # before'). snd e < snd (fold step xs x)"
        using lt Cons a_lt x_lt by auto
      show ?thesis unfolding f using 1 2 3 by blast
    qed
  qed
qed

lemma py_max_item_props:
  assumes "items \<noteq> []"
  shows "\<exists>best before after. py_max_item items = Inr best \<and> items = before @ best # after
           \<and> (\<forall>e \<in> set before. snd e < snd best) \<and> (\<forall>e \<in> set items. snd e \<le> snd best)"
proof -
  obtain x xs where items: "items = x # xs" using assms by (cases items) auto
  show ?thesis
    using fold_max [of x xs] unfolding items by (simp add: py_max_item_def)
qed

lemma get_best_total:
  assumes "ms \<noteq> []" "distinct (map fst ms)"
  shows "\<exists>m. get_best_model_for_domain ms (build_capability_matrix ms) d = Inr m"
proof (cases "d \<in> set (all_domains ms)")
  case True
  have "matrix_row ms d \<noteq> []"
    using assms by (simp add: matrix_row_map)
  then obtain best where "py_max_item (matrix_row ms d) = Inr best"
    using py_max_item_props by blast
  then show ?thesis
    using True by (simp add: get_best_model_for_domain_def build_capability_matrix_def)
next
  case False
  obtain nm sg rest where "ms = (nm, sg) # rest"
    using assms(1) by (cases ms) auto
  then show ?thesis
    using False by (simp add: get_best_model_for_domain_def build_capability_matrix_def)
qed

lemma experts_for_total:
  assumes "\<And>d. \<exists>m. get_best_model_for_domain ms cm d = Inr m"
  shows "\<exists>r. experts_for ms cm ds = Inr r
           \<and> (\<forall>d \<in> set ds. \<forall>m. get_best_model_for_domain ms cm d = Inr m \<longrightarrow> map_of r d = Some m)"
proof (induction ds)
  case Nil
  then show ?case by simp
next
  case (Cons a ds)
  obtain m where m: "get_best_model_for_domain ms cm a = Inr m"
    using assms by blast
  obtain r where r: "experts_for ms cm ds = Inr r"
    and look: "\<forall>d \<in> set ds. \<forall>m. get_best_model_for_domain ms cm d = Inr m \<longrightarrow> map_of r d = Some m"
    using Cons.IH by blast
  have "experts_for ms cm (a # ds) = Inr ((a, m) # r)"
    using m r by simp
  moreover have "\<forall>d \<in> set (a # ds). \<forall>m'. get_best_model_for_domain ms cm d = Inr m'
      \<longrightarrow> map_of ((a, m) # r) d = Some m'"
    using m look by auto
  ultimately show ?case by blast
qed

text \<open>
  C5. For each of the six domains that has a row in the capability matrix, the
  blueprint is designed without error and its routing table \<open>domain_experts\<close> maps
  the domain to an artifact \<open>m\<close> of the row whose strength \<open>v\<close> no strength of the
  row exceeds, and every artifact before \<open>m\<close> in the row has a strength below
  \<open>v\<close>; the row lists the artifacts in the order in which their names are first
  seen in the signatures given. So the routing table takes the maximum and, of equal
  maxima, the first seen. The witness is the example of the claim: \<open>A\<close> with
  mathematics 0.9 and coding 0.2, \<open>B\<close> with mathematics 0.1 and coding 0.8.
\<close>

theorem routing_table_argmax:
  assumes "d \<in> set expert_domains"
    and "build_capability_matrix (model_signatures_of sigs) d = Some row"
  shows "\<exists>bp m v before after.
           analyze_dissection_results ar sigs = Inr bp
         \<and> map_of (domain_experts bp) d = Some m
         \<and> row = before @ (m, v) # after
         \<and> (\<forall>e \<in> set row. snd e \<le> v)
         \<and> (\<forall>e \<in> set before. snd e < v)
         \<and> map fst row = first_seen (map model_name sigs)"
proof -
  let ?ms = "model_signatures_of sigs"
  let ?cm = "build_capability_matrix ?ms"
  have dist: "distinct (map fst ?ms)" by (rule distinct_model_signatures)
  have din: "d \<in> set (all_domains ?ms)" and row: "row = matrix_row ?ms d"
    using assms(2) by (auto simp: build_capability_matrix_def split: if_splits)
  have ne: "?ms \<noteq> []"
    using din by (auto simp: all_domains_def)
  have rowmap: "row = map (\<lambda>(nm, sg). (nm, domain_strength sg d)) ?ms"
    unfolding row by (rule matrix_row_map [OF dist])
  have keys: "map fst row = first_seen (map model_name sigs)"
    unfolding rowmap by (simp add: comp_def case_prod_unfold keys_first_seen [symmetric])
  have "row \<noteq> []" using ne rowmap by simp
  then obtain best before after where
    best: "py_max_item row = Inr best" and split: "row = before @ best # after" and
    lt: "\<forall>e \<in> set before. snd e < snd best" and le: "\<forall>e \<in> set row. snd e \<le> snd best"
    using py_max_item_props by blast
  have gb: "get_best_model_for_domain ?ms ?cm d = Inr (fst best)"
    using assms(2) best by (simp add: get_best_model_for_domain_def)
  obtain r where r: "experts_for ?ms ?cm expert_domains = Inr r"
    and look: "\<forall>d \<in> set expert_domains. \<forall>m. get_best_model_for_domain ?ms ?cm d = Inr m
        \<longrightarrow> map_of r d = Some m"
    using experts_for_total [of ?ms ?cm expert_domains] get_best_total [OF ne dist] by blast
  have "map_of r d = Some (fst best)"
    using look assms(1) gb by blast
  moreover have "\<exists>bp. analyze_dissection_results ar sigs = Inr bp \<and> domain_experts bp = r"
    using r
    by (simp add: analyze_dissection_results_def design_supermodel_architecture_def Let_def)
  moreover have "row = before @ (fst best, snd best) # after"
    using split by simp
  ultimately show ?thesis
    using lt le keys by blast
qed

lemma ms_AB: "model_signatures_of [artifact_A, artifact_B] = [(''A'', artifact_A), (''B'', artifact_B)]"
  by (simp add: model_signatures_of_def artifact_A_def artifact_B_def)

lemma matrix_AB:
  "build_capability_matrix (model_signatures_of [artifact_A, artifact_B]) ''mathematics''
   = Some [(''A'', 9 / 10), (''B'', 1 / 10)]"
  "build_capability_matrix (model_signatures_of [artifact_A, artifact_B]) ''coding''
   = Some [(''A'', 2 / 10), (''B'', 8 / 10)]"
  unfolding ms_AB
  by (simp_all add: build_capability_matrix_def all_domains_def matrix_row_def
      domain_strength_def artifact_A_def artifact_B_def)

lemma matrix_AB_none:
  "build_capability_matrix [(''A'', artifact_A), (''B'', artifact_B)] ''reasoning'' = None"
  "build_capability_matrix [(''A'', artifact_A), (''B'', artifact_B)] ''language'' = None"
  "build_capability_matrix [(''A'', artifact_A), (''B'', artifact_B)] ''creativity'' = None"
  "build_capability_matrix [(''A'', artifact_A), (''B'', artifact_B)] ''knowledge'' = None"
  by (simp_all add: build_capability_matrix_def all_domains_def artifact_A_def artifact_B_def)

lemma experts_AB:
  "experts_for [(''A'', artifact_A), (''B'', artifact_B)]
     (build_capability_matrix [(''A'', artifact_A), (''B'', artifact_B)]) expert_domains
   = Inr [(''mathematics'', ''A''), (''coding'', ''B''), (''reasoning'', ''A''),
          (''language'', ''A''), (''creativity'', ''A''), (''knowledge'', ''A'')]"
  using matrix_AB unfolding ms_AB
  by (simp add: expert_domains_def get_best_model_for_domain_def matrix_AB_none py_max_item_def)

theorem routing_table_argmax_witness:
  "''mathematics'' \<in> set expert_domains
   \<and> build_capability_matrix (model_signatures_of [artifact_A, artifact_B]) ''mathematics''
       = Some [(''A'', 9 / 10), (''B'', 1 / 10)]
   \<and> ''coding'' \<in> set expert_domains
   \<and> build_capability_matrix (model_signatures_of [artifact_A, artifact_B]) ''coding''
       = Some [(''A'', 2 / 10), (''B'', 8 / 10)]
   \<and> (case analyze_dissection_results example_arith [artifact_A, artifact_B] of
         Inl e \<Rightarrow> None | Inr bp \<Rightarrow> map_of (domain_experts bp) ''mathematics'') = Some ''A''
   \<and> (case analyze_dissection_results example_arith [artifact_A, artifact_B] of
         Inl e \<Rightarrow> None | Inr bp \<Rightarrow> map_of (domain_experts bp) ''coding'') = Some ''B''"
  using routing_table_argmax [of "''mathematics''" "[artifact_A, artifact_B]" "[(''A'', 9 / 10), (''B'', 1 / 10)]" example_arith]
    routing_table_argmax [of "''coding''" "[artifact_A, artifact_B]" "[(''A'', 2 / 10), (''B'', 8 / 10)]" example_arith]
    matrix_AB experts_AB
  by (simp add: analyze_dissection_results_def design_supermodel_architecture_def ms_AB)
     (simp add: expert_domains_def)

end
